theory Spec2Isabelle
  imports Complex_Main "HOL-Library.Char_ord" "HOL-Library.List_Lexorder"
    "HOL-Library.Product_Lexorder" "HOL-Library.Multiset"
begin

section \<open>Strings\<close>

text \<open>
  A Python \<open>str\<close> is represented by the bytes of its UTF-8 encoding, as a \<open>string\<close>
  (a \<open>char list\<close>; a \<open>char\<close> is one byte).  So \<open>s.encode("utf-8")\<close> is \<open>s\<close> itself and
  \<open>len(s.encode("utf-8"))\<close> is \<open>length s\<close>.  The tokens of the graveyard are ASCII
  (they are matches of \<open>[A-Za-z0-9_./-]+\<close>), so for them bytes and code points coincide.
\<close>

definition byte_of :: "char \<Rightarrow> nat" where
  "byte_of c = of_char c"

definition is_upper :: "char \<Rightarrow> bool" where
  "is_upper c = (65 \<le> byte_of c \<and> byte_of c \<le> 90)"

definition is_lower :: "char \<Rightarrow> bool" where
  "is_lower c = (97 \<le> byte_of c \<and> byte_of c \<le> 122)"

definition is_digit :: "char \<Rightarrow> bool" where
  "is_digit c = (48 \<le> byte_of c \<and> byte_of c \<le> 57)"

definition lower_char :: "char \<Rightarrow> char" where
  "lower_char c = (if is_upper c then char_of (byte_of c + 32) else c)"

text \<open>\<open>str.lower()\<close> on ASCII text; bytes above 127 are left alone.\<close>

definition lower :: "string \<Rightarrow> string" where
  "lower s = map lower_char s"

text \<open>\<open>s.strip(chars)\<close>: drop the leading and the trailing characters that are in \<open>chars\<close>.\<close>

definition strip :: "string \<Rightarrow> string \<Rightarrow> string" where
  "strip chars s =
     rev (dropWhile (\<lambda>c. c \<in> set chars) (rev (dropWhile (\<lambda>c. c \<in> set chars) s)))"

definition endswith :: "string \<Rightarrow> string \<Rightarrow> bool" where
  "endswith s suf = (length suf \<le> length s \<and> drop (length s - length suf) s = suf)"

definition startswith :: "string \<Rightarrow> string \<Rightarrow> bool" where
  "startswith s pre = (take (length pre) s = pre)"

text \<open>\<open>s[:-k]\<close> for a positive \<open>k\<close>.\<close>

definition drop_last :: "nat \<Rightarrow> string \<Rightarrow> string" where
  "drop_last k s = take (length s - k) s"

section \<open>graveyard.py: the failure tokenizer and normalizer\<close>

definition SYNONYM_CANONICAL :: "(string \<times> string) list" where
  "SYNONYM_CANONICAL =
     [(''redis'', ''cache''),
      (''caching'', ''cache''),
      (''latency'', ''timeout''),
      (''slow'', ''timeout''),
      (''slowness'', ''timeout''),
      (''crash'', ''fail''),
      (''crashed'', ''fail''),
      (''failure'', ''fail''),
      (''failed'', ''fail''),
      (''error'', ''fail''),
      (''errors'', ''fail''),
      (''exception'', ''fail''),
      (''exceptions'', ''fail''),
      (''connection'', ''connect''),
      (''connections'', ''connect'')]"

text \<open>\<open>d.get(k, default)\<close> on a dict written as an association list with distinct keys.\<close>

definition dict_get :: "('k \<times> 'v) list \<Rightarrow> 'k \<Rightarrow> 'v \<Rightarrow> 'v" where
  "dict_get d k dflt = (case map_of d k of None \<Rightarrow> dflt | Some v \<Rightarrow> v)"

text \<open>\<open>Graveyard._normalize_token\<close> (graveyard.py, lines 167 to 179).\<close>

definition normalize_token :: "string \<Rightarrow> string" where
  "normalize_token token =
     (let v = strip ''._/-'' (lower token) in
      if length v \<le> 2 then ''''
      else
        (let v' =
           (if endswith v ''ies'' \<and> length v > 4 then drop_last 3 v @ ''y''
            else if endswith v ''ing'' \<and> length v > 5 then drop_last 3 v
            else if endswith v ''ed'' \<and> length v > 4 then drop_last 2 v
            else if endswith v ''s'' \<and> length v > 3 then drop_last 1 v
            else v)
         in dict_get SYNONYM_CANONICAL v' v'))"

text \<open>The character class of \<open>_WORD_RE\<close>: \<open>[A-Za-z0-9_./-]\<close>.\<close>

definition is_word_char :: "char \<Rightarrow> bool" where
  "is_word_char c = (is_upper c \<or> is_lower c \<or> is_digit c \<or> c \<in> set ''_./-'')"

text \<open>
  \<open>_WORD_RE.findall(text)\<close>: the maximal runs of word characters, left to right.
  The first argument is the run being read.
\<close>

fun findall_from :: "string \<Rightarrow> string \<Rightarrow> string list" where
  "findall_from cur [] = (if cur = [] then [] else [cur])"
| "findall_from cur (c # cs) =
     (if is_word_char c then findall_from (cur @ [c]) cs
      else (if cur = [] then [] else [cur]) @ findall_from [] cs)"

definition WORD_RE_findall :: "string \<Rightarrow> string list" where
  "WORD_RE_findall text = findall_from [] text"

text \<open>\<open>Graveyard._tokenize\<close>: normalize every raw word, keep the non-empty results.\<close>

definition tokenize :: "string \<Rightarrow> string list" where
  "tokenize text = filter (\<lambda>t. t \<noteq> []) (map normalize_token (WORD_RE_findall text))"

text \<open>\<open>Graveyard._keywords\<close>: the set of the tokens.\<close>

definition keywords_of :: "string \<Rightarrow> string set" where
  "keywords_of text = set (tokenize text)"

section \<open>store.py: the graveyard table\<close>

text \<open>
  A row of the \<open>graveyard\<close> table, and equally the item dict that
  \<open>_graveyard_row_to_item\<close> makes of it: the columns \<open>files_json\<close> and \<open>keywords_json\<close>
  hold \<open>json.dumps\<close> of a list of strings and the item holds \<open>json.loads\<close> of them, so the
  row is written with the two lists themselves.
\<close>

record graveyard_row =
  row_id :: int
  row_session_id :: "string option"
  row_summary :: string
  row_reason :: string
  row_files :: "string list"
  row_keywords :: "string list"
  row_created_at :: string

text \<open>
  The store.  \<open>graveyard\<close> is the table in insertion order and \<open>autoincrement\<close> the last id
  that \<open>AUTOINCREMENT\<close> handed out.  \<open>fts5\<close> stands for SQLite's FTS5 engine, which is not
  code of this repository: given the terms of the \<open>OR\<close> query, the indexed rows and the
  \<open>LIMIT\<close>, it answers \<open>None\<close> when the virtual table cannot be created
  (\<open>sqlite3.OperationalError\<close>) and otherwise the matched entry ids in \<open>bm25\<close> order.
\<close>

record SQLiteStore =
  graveyard :: "graveyard_row list"
  autoincrement :: int
  fts5 :: "string list \<Rightarrow> graveyard_row list \<Rightarrow> nat \<Rightarrow> int list option"

text \<open>\<open>SQLiteStore.insert_graveyard\<close>; \<open>now\<close> is the reading of \<open>_utc_now()\<close>.\<close>

definition insert_graveyard ::
  "string \<Rightarrow> SQLiteStore \<Rightarrow> string option \<Rightarrow> string \<Rightarrow> string \<Rightarrow> string list \<Rightarrow> string list
     \<Rightarrow> SQLiteStore" where
  "insert_graveyard now st session_id summary reason files kws =
     st\<lparr>graveyard := graveyard st @
          [\<lparr>row_id = autoincrement st + 1, row_session_id = session_id, row_summary = summary,
            row_reason = reason, row_files = files, row_keywords = kws,
            row_created_at = now\<rparr>],
        autoincrement := autoincrement st + 1\<rparr>"

text \<open>\<open>_list_graveyard_rows\<close>: \<open>ORDER BY id DESC LIMIT ?\<close>.\<close>

definition list_graveyard_rows :: "SQLiteStore \<Rightarrow> nat \<Rightarrow> graveyard_row list" where
  "list_graveyard_rows st limit = take limit (rev (sort_key row_id (graveyard st)))"

definition list_graveyard :: "SQLiteStore \<Rightarrow> nat \<Rightarrow> graveyard_row list" where
  "list_graveyard st limit = list_graveyard_rows st limit"

text \<open>\<open>_FTS_TOKEN_RE\<close>, \<open>^[a-z0-9_]+$\<close>, on a token (a token holds no newline).\<close>

definition FTS_TOKEN_RE_match :: "string \<Rightarrow> bool" where
  "FTS_TOKEN_RE_match t =
     (t \<noteq> [] \<and> list_all (\<lambda>c. is_lower c \<or> is_digit c \<or> c = CHR ''_'') t)"

text \<open>
  \<open>SQLiteStore.list_graveyard_fts_candidates\<close>: \<open>None\<close> is the "unsupported" answer.
  \<open>row_map\<close> is a dict comprehension, so of two rows with one id the later one stays.
\<close>

definition list_graveyard_fts_candidates ::
  "SQLiteStore \<Rightarrow> string list \<Rightarrow> nat \<Rightarrow> int \<Rightarrow> graveyard_row list option" where
  "list_graveyard_fts_candidates st tokens limit candidate_limit =
     (let terms = filter FTS_TOKEN_RE_match tokens;
          rows = list_graveyard_rows st limit
      in if terms = [] \<or> rows = [] then Some []
         else
           (case fts5 st (take 12 terms) rows (nat (max 1 candidate_limit)) of
              None \<Rightarrow> None
            | Some ordered_ids \<Rightarrow>
                (let row_map = map_of (rev (map (\<lambda>r. (row_id r, r)) rows))
                 in Some (concat (map (\<lambda>eid. case row_map eid of None \<Rightarrow> [] | Some r \<Rightarrow> [r])
                                   ordered_ids)))))"

section \<open>graveyard.py: similarity retrieval\<close>

record GraveyardConfig =
  enabled :: bool
  max_matches :: int
  similarity_threshold :: real
  min_keyword_overlap :: int

record GraveyardMatch =
  entry_id :: int
  score :: real
  summary :: string
  reason :: string
  files :: "string list"
  keyword_overlap :: "string list"
  file_overlap :: "string list"
  semantic_score :: real
  created_at :: string

text \<open>\<open>s.split(sep)\<close> for a one-character separator, and \<open>sep.join(parts)\<close>.\<close>

fun split_on :: "char \<Rightarrow> string \<Rightarrow> string list" where
  "split_on sep [] = [[]]"
| "split_on sep (c # cs) =
     (if c = sep then [] # split_on sep cs
      else (case split_on sep cs of [] \<Rightarrow> [[c]] | p # ps \<Rightarrow> (c # p) # ps))"

fun join :: "string \<Rightarrow> string list \<Rightarrow> string" where
  "join sep [] = []"
| "join sep [p] = p"
| "join sep (p # q # ps) = p @ sep @ join sep (q # ps)"

text \<open>
  \<open>Graveyard._norm_path\<close>.  \<open>str(PurePosixPath(path))\<close> only collapses empty and \<open>.\<close>
  segments, which the comprehension drops anyway.
\<close>

definition norm_path :: "string \<Rightarrow> string" where
  "norm_path p = join ''/'' (filter (\<lambda>s. s \<noteq> [] \<and> s \<noteq> ''.'') (split_on CHR ''/'' p))"

text \<open>\<open>Graveyard._token_jaccard\<close>.\<close>

definition token_jaccard :: "string set \<Rightarrow> string set \<Rightarrow> real" where
  "token_jaccard left right =
     (if left = {} \<or> right = {} then 0
      else if left \<union> right = {} then 0
      else real (card (left \<inter> right)) / real (card (left \<union> right)))"

text \<open>\<open>Graveyard._load_candidate_entries\<close>: an empty or an "unsupported" answer means a full scan.\<close>

definition load_candidate_entries :: "SQLiteStore \<Rightarrow> string list \<Rightarrow> graveyard_row list" where
  "load_candidate_entries st query_tokens =
     (if query_tokens = [] then list_graveyard st 200
      else
        (case list_graveyard_fts_candidates st query_tokens 200 80 of
           None \<Rightarrow> list_graveyard st 200
         | Some candidates \<Rightarrow> if candidates = [] then list_graveyard st 200 else candidates))"

text \<open>
  The pieces of \<open>Graveyard.find_similar\<close>.  Python's floats are modelled by the reals and
  \<open>math.log\<close> by \<open>ln\<close>.  A Python set is a HOL set, and \<open>sorted\<close> of a set of strings is
  \<open>sorted_list_of_set\<close> (Python orders strings by code point, which is the byte order of
  their UTF-8 encodings).
\<close>

definition query_files_of :: "string list \<Rightarrow> string set" where
  "query_files_of fs = set (map norm_path (filter (\<lambda>p. p \<noteq> []) fs))"

text \<open>\<open>df[token]\<close>: the number of entries of the source whose keywords hold the token.\<close>

definition doc_freq :: "graveyard_row list \<Rightarrow> string \<Rightarrow> nat" where
  "doc_freq idf_source token = length (filter (\<lambda>e. token \<in> set (row_keywords e)) idf_source)"

definition query_idf :: "graveyard_row list \<Rightarrow> string \<Rightarrow> real" where
  "query_idf idf_source token =
     ln ((real (length idf_source) + 1) / (real (doc_freq idf_source token) + 1)) + 1"

text \<open>\<open>sum(query_idf.values()) or 1.0\<close>.\<close>

definition query_weight :: "graveyard_row list \<Rightarrow> string set \<Rightarrow> real" where
  "query_weight idf_source query_keywords =
     (let s = sum (query_idf idf_source) query_keywords in if s = 0 then 1 else s)"

definition keyword_overlap_of :: "string set \<Rightarrow> graveyard_row \<Rightarrow> string list" where
  "keyword_overlap_of query_keywords e =
     sorted_list_of_set (query_keywords \<inter> set (row_keywords e))"

definition file_overlap_of :: "string set \<Rightarrow> graveyard_row \<Rightarrow> string list" where
  "file_overlap_of query_files e =
     sorted_list_of_set (query_files \<inter> set (map norm_path (row_files e)))"

definition keyword_score_of :: "graveyard_row list \<Rightarrow> string set \<Rightarrow> string list \<Rightarrow> real" where
  "keyword_score_of idf_source query_keywords kw_overlap =
     sum_list (map (query_idf idf_source) kw_overlap) / query_weight idf_source query_keywords"

definition file_score_of :: "string set \<Rightarrow> string list \<Rightarrow> real" where
  "file_score_of query_files f_overlap =
     (if query_files \<noteq> {} then real (length f_overlap) / real (max 1 (card query_files))
      else 0)"

definition semantic_score_of :: "string set \<Rightarrow> graveyard_row \<Rightarrow> real" where
  "semantic_score_of query_token_set e =
     token_jaccard query_token_set (set (tokenize (row_summary e @ '' '' @ row_reason e)))"

definition combined_score :: "real \<Rightarrow> real \<Rightarrow> real \<Rightarrow> real" where
  "combined_score keyword_score file_score semantic =
     keyword_score * 0.45 + file_score * 0.25 + semantic * 0.30"

text \<open>The first \<open>continue\<close> of the loop: the entry is skipped when this is false.\<close>

definition passes_gate :: "GraveyardConfig \<Rightarrow> string list \<Rightarrow> string list \<Rightarrow> real \<Rightarrow> bool" where
  "passes_gate cfg kw_overlap f_overlap semantic =
     (\<not> (int (length kw_overlap) < min_keyword_overlap cfg \<and> f_overlap = []
         \<and> semantic < similarity_threshold cfg))"

text \<open>One round of the loop over the entries: the match appended for \<open>e\<close>, if any.\<close>

definition score_entry ::
  "GraveyardConfig \<Rightarrow> graveyard_row list \<Rightarrow> string set \<Rightarrow> string set \<Rightarrow> string set
     \<Rightarrow> graveyard_row \<Rightarrow> GraveyardMatch list" where
  "score_entry cfg idf_source query_keywords query_token_set query_files e =
     (let kw_overlap = keyword_overlap_of query_keywords e;
          f_overlap = file_overlap_of query_files e;
          keyword_score = keyword_score_of idf_source query_keywords kw_overlap;
          file_score = file_score_of query_files f_overlap;
          semantic = semantic_score_of query_token_set e
      in if \<not> passes_gate cfg kw_overlap f_overlap semantic then []
         else
           (let sc = combined_score keyword_score file_score semantic
            in if sc < similarity_threshold cfg then []
               else [\<lparr>entry_id = row_id e, score = sc, summary = row_summary e,
                      reason = row_reason e, files = row_files e,
                      keyword_overlap = kw_overlap, file_overlap = f_overlap,
                      semantic_score = semantic, created_at = row_created_at e\<rparr>]))"

text \<open>
  \<open>list.sort(key=..., reverse=True)\<close>: a stable sort that keeps the order of equal keys,
  which CPython does by reversing, sorting and reversing again.
\<close>

definition sort_reverse :: "('a \<Rightarrow> 'k::linorder) \<Rightarrow> 'a list \<Rightarrow> 'a list" where
  "sort_reverse key xs = rev (sort_key key (rev xs))"

text \<open>\<open>xs[:k]\<close> for an integer \<open>k\<close>: a negative \<open>k\<close> counts from the end.\<close>

definition slice_to :: "int \<Rightarrow> 'a list \<Rightarrow> 'a list" where
  "slice_to k xs = (if 0 \<le> k then take (nat k) xs else take (nat (int (length xs) + k)) xs)"

text \<open>\<open>max_matches or self.config.max_matches\<close>: \<open>None\<close> and \<open>0\<close> are falsy.\<close>

definition effective_max_matches :: "GraveyardConfig \<Rightarrow> int option \<Rightarrow> int" where
  "effective_max_matches cfg mm =
     (case mm of None \<Rightarrow> max_matches cfg | Some k \<Rightarrow> if k = 0 then max_matches cfg else k)"

text \<open>The list \<open>scored\<close> after the loop, for given candidate entries.\<close>

definition scored_matches ::
  "GraveyardConfig \<Rightarrow> graveyard_row list \<Rightarrow> string \<Rightarrow> string list \<Rightarrow> graveyard_row list
     \<Rightarrow> GraveyardMatch list" where
  "scored_matches cfg idf_source summary_text fs entries =
     concat (map (score_entry cfg idf_source (keywords_of summary_text)
                    (set (tokenize summary_text)) (query_files_of fs)) entries)"

text \<open>\<open>idf_source = corpus_entries or entries\<close>: an empty list is falsy.\<close>

definition idf_source_of :: "SQLiteStore \<Rightarrow> string \<Rightarrow> graveyard_row list" where
  "idf_source_of st summary_text =
     (let corpus_entries = list_graveyard st 200;
          entries = load_candidate_entries st (tokenize summary_text)
      in if corpus_entries \<noteq> [] then corpus_entries else entries)"

text \<open>\<open>Graveyard.find_similar\<close> (graveyard.py, lines 84 to 143).\<close>

definition find_similar ::
  "GraveyardConfig \<Rightarrow> SQLiteStore \<Rightarrow> string \<Rightarrow> string list \<Rightarrow> int option
     \<Rightarrow> GraveyardMatch list" where
  "find_similar cfg st summary_text fs mm =
     (if \<not> enabled cfg then []
      else if tokenize summary_text = [] \<and> query_files_of fs = {} then []
      else
        (let entries = load_candidate_entries st (tokenize summary_text);
             idf_source = idf_source_of st summary_text;
             scored = scored_matches cfg idf_source summary_text fs entries
         in slice_to (effective_max_matches cfg mm)
              (sort_reverse (\<lambda>m. (score m, entry_id m)) scored)))"

text \<open>
  \<open>Graveyard.record_failure\<close> (graveyard.py, lines 65 to 82): the store after the call.
  \<open>now\<close> is the timestamp the store would read.
\<close>

definition record_failure ::
  "GraveyardConfig \<Rightarrow> string \<Rightarrow> SQLiteStore \<Rightarrow> string option \<Rightarrow> string \<Rightarrow> string \<Rightarrow> string list
     \<Rightarrow> SQLiteStore" where
  "record_failure cfg now st session_id summary_text reason_text fs =
     (if \<not> enabled cfg then st
      else insert_graveyard now st session_id summary_text reason_text fs
             (sorted_list_of_set (keywords_of summary_text \<union> keywords_of reason_text)))"

section \<open>repomap.py: the text renderer\<close>

text \<open>
  \<open>RepoMapRankingEntry\<close>.  The field names carry the prefix \<open>entry_\<close> because
  \<open>RepoMapFileAnalysis\<close> has a \<open>path\<close> and a \<open>symbols\<close> too, and \<open>GraveyardMatch\<close> a \<open>score\<close>.
\<close>

record RepoMapRankingEntry =
  entry_path :: string
  entry_score :: real
  entry_symbols :: "string list"

definition newline :: char where
  "newline = CHR 0x0A"

definition digit_char :: "nat \<Rightarrow> char" where
  "digit_char d = char_of (48 + d)"

text \<open>The decimal digits of an integer, as an f-string writes them.\<close>

function str_nat :: "nat \<Rightarrow> string" where
  "str_nat n = (if n < 10 then [digit_char n] else str_nat (n div 10) @ [digit_char (n mod 10)])"
  by pat_completeness auto
termination
  by (relation "measure id") auto

definition str_int :: "int \<Rightarrow> string" where
  "str_int i = (if i < 0 then ''-'' @ str_nat (nat (- i)) else str_nat (nat i))"

text \<open>
  \<open>_render_entry_chunk\<close>.  The float format \<open>{entry.score:.3f}\<close> is a parameter \<open>fmt\<close>: what
  is proved about the renderer holds for every way of writing the score.
\<close>

definition render_entry_chunk :: "(real \<Rightarrow> string) \<Rightarrow> RepoMapRankingEntry \<Rightarrow> string" where
  "render_entry_chunk fmt e =
     (entry_path e @ '' ('' @ fmt (entry_score e) @ '')'' @ [newline])
     @ concat (map (\<lambda>s. ''  - '' @ s @ [newline]) (entry_symbols e))"

text \<open>
  UTF-8 decoding, as far as \<open>_truncate_utf8\<close> needs it.  \<open>utf8_char_len bs\<close> is the length of
  the well-formed UTF-8 sequence at the head of \<open>bs\<close>, and 0 when there is none (an invalid
  start byte, a wrong continuation byte, an overlong form, a surrogate, or a sequence cut
  short).  \<open>utf8_error_start bs\<close> is \<open>None\<close> when \<open>bs.decode("utf-8")\<close> succeeds and otherwise
  \<open>Some\<close> of the \<open>start\<close> of the \<open>UnicodeDecodeError\<close>: the index of the first byte of the
  first sequence that is not well-formed.
\<close>

definition is_cont :: "char \<Rightarrow> bool" where
  "is_cont c = (128 \<le> byte_of c \<and> byte_of c \<le> 191)"

definition second_ok :: "nat \<Rightarrow> char \<Rightarrow> bool" where
  "second_ok lead c =
     (let n = byte_of c in
      if lead = 224 then 160 \<le> n \<and> n \<le> 191
      else if lead = 237 then 128 \<le> n \<and> n \<le> 159
      else if lead = 240 then 144 \<le> n \<and> n \<le> 191
      else if lead = 244 then 128 \<le> n \<and> n \<le> 143
      else 128 \<le> n \<and> n \<le> 191)"

fun utf8_char_len :: "string \<Rightarrow> nat" where
  "utf8_char_len [] = 0"
| "utf8_char_len (b # rest) =
     (let n = byte_of b in
      if n < 128 then 1
      else if 194 \<le> n \<and> n \<le> 223 then
        (case rest of c1 # _ \<Rightarrow> if is_cont c1 then 2 else 0 | _ \<Rightarrow> 0)
      else if 224 \<le> n \<and> n \<le> 239 then
        (case rest of c1 # c2 # _ \<Rightarrow> if second_ok n c1 \<and> is_cont c2 then 3 else 0 | _ \<Rightarrow> 0)
      else if 240 \<le> n \<and> n \<le> 244 then
        (case rest of
           c1 # c2 # c3 # _ \<Rightarrow> if second_ok n c1 \<and> is_cont c2 \<and> is_cont c3 then 4 else 0
         | _ \<Rightarrow> 0)
      else 0)"

lemma utf8_char_len_le: "utf8_char_len bs \<le> length bs"
  by (cases bs) (auto simp: Let_def split: list.splits)

function utf8_error_start :: "string \<Rightarrow> nat option" where
  "utf8_error_start bs =
     (if bs = [] then None
      else
        (let k = utf8_char_len bs in
         if k = 0 then Some 0
         else map_option (\<lambda>i. i + k) (utf8_error_start (drop k bs))))"
  by pat_completeness auto
termination
  by (relation "measure length") auto

declare utf8_error_start.simps [simp del]

lemma utf8_error_start_less: "utf8_error_start bs = Some i \<Longrightarrow> i < length bs"
proof (induction bs arbitrary: i rule: utf8_error_start.induct)
  case (1 bs)
  show ?case
  proof (cases "bs = []")
    case True
    with "1.prems" show ?thesis by (simp add: utf8_error_start.simps)
  next
    case False
    show ?thesis
    proof (cases "utf8_char_len bs = 0")
      case True
      with False "1.prems" show ?thesis by (simp add: utf8_error_start.simps [of bs])
    next
      case k: False
      with False "1.prems" obtain j where
        j: "utf8_error_start (drop (utf8_char_len bs) bs) = Some j" and i: "i = j + utf8_char_len bs"
        by (auto simp: utf8_error_start.simps [of bs] Let_def)
      from "1.IH" [OF False refl k j] have "j < length bs - utf8_char_len bs" by simp
      with i show ?thesis by simp
    qed
  qed
qed

text \<open>
  The \<open>while clipped\<close> loop of \<open>_truncate_utf8\<close>: return \<open>clipped\<close> if it decodes, else cut
  it at the start of the error and try again.  The error starts inside \<open>clipped\<close>
  (\<open>utf8_error_start_less\<close>), so the loop terminates.
\<close>

function truncate_loop :: "string \<Rightarrow> string" where
  "truncate_loop clipped =
     (if clipped = [] then []
      else (case utf8_error_start clipped of
              None \<Rightarrow> clipped
            | Some i \<Rightarrow> truncate_loop (take i clipped)))"
  by pat_completeness auto
termination
  by (relation "measure length") (auto dest: utf8_error_start_less)

declare truncate_loop.simps [simp del]

text \<open>\<open>_truncate_utf8\<close> (repomap.py, lines 644 to 656).\<close>

definition truncate_utf8 :: "string \<Rightarrow> int \<Rightarrow> string" where
  "truncate_utf8 text max_bytes =
     (if max_bytes \<le> 0 then []
      else if int (length text) \<le> max_bytes then text
      else truncate_loop (take (nat max_bytes) text))"

text \<open>
  The \<open>for entry in ranking\<close> loop of \<open>_render_text\<close>, over the rendered chunks: the result is
  \<open>(chunks, used, truncated)\<close>.
\<close>

fun accept_chunks ::
  "int \<Rightarrow> (string \<times> int) list \<Rightarrow> int \<Rightarrow> string list \<Rightarrow> (string \<times> int) list \<times> int \<times> bool" where
  "accept_chunks budget chunks used [] = (chunks, used, False)"
| "accept_chunks budget chunks used (chunk # rest) =
     (let chunk_bytes = int (length chunk) in
      if used + chunk_bytes > budget then (chunks, used, True)
      else accept_chunks budget (chunks @ [(chunk, chunk_bytes)]) (used + chunk_bytes) rest)"

text \<open>The note of \<open>_render_text\<close>; \<open>n_total\<close> is \<open>len(ranking)\<close>.\<close>

definition truncation_note :: "nat \<Rightarrow> nat \<Rightarrow> int \<Rightarrow> string" where
  "truncation_note shown n_total budget =
     ''... (truncated, showing '' @ str_nat shown @ ''/'' @ str_nat n_total
     @ '' files within '' @ str_int budget @ '' bytes)'' @ [newline]"

text \<open>
  The \<open>while chunks and used + note_bytes > budget\<close> loop: pop the last chunk and write the
  note again, until the note fits or no chunk is left.
\<close>

function shrink_chunks ::
  "int \<Rightarrow> nat \<Rightarrow> (string \<times> int) list \<Rightarrow> int \<Rightarrow> (string \<times> int) list \<times> int" where
  "shrink_chunks budget n_total chunks used =
     (if chunks \<noteq> []
         \<and> used + int (length (truncation_note (length chunks) n_total budget)) > budget
      then shrink_chunks budget n_total (butlast chunks) (used - snd (last chunks))
      else (chunks, used))"
  by pat_completeness auto
termination
  by (relation "measure (\<lambda>(budget, n_total, chunks, used). length chunks)") auto

declare shrink_chunks.simps [simp del]

text \<open>\<open>_render_text\<close> (repomap.py, lines 891 to 922).\<close>

definition render_text :: "(real \<Rightarrow> string) \<Rightarrow> RepoMapRankingEntry list \<Rightarrow> int \<Rightarrow> string" where
  "render_text fmt ranking max_text_bytes =
     (if ranking = [] then []
      else
        (let budget = max 256 max_text_bytes;
             n_total = length ranking
         in case accept_chunks budget [] 0 (map (render_entry_chunk fmt) ranking) of
              (chunks, used, truncated) \<Rightarrow>
                if truncated then
                  (case shrink_chunks budget n_total chunks used of
                     (chunks', used') \<Rightarrow>
                       (let note = truncation_note (length chunks') n_total budget;
                            note_bytes = int (length note)
                        in if used' + note_bytes \<le> budget
                           then concat (map fst (chunks' @ [(note, note_bytes)]))
                           else truncate_utf8 note budget))
                else concat (map fst chunks)))"



section \<open>repomap.py: the ranking heuristic\<close>

text \<open>\<open>RepoMapFileAnalysis\<close>; its field \<open>imports\<close> is written \<open>import_targets\<close>.\<close>

record RepoMapFileAnalysis =
  path :: string
  byte_size :: int
  line_count :: int
  symbols :: "string list"
  symbol_count :: int
  import_targets :: "string list"

definition CODE_LIKE_SUFFIXES :: "string list" where
  "CODE_LIKE_SUFFIXES =
     [''.astro'', ''.svelte'', ''.vue'', ''.py'', ''.pyi'', ''.js'', ''.jsx'', ''.ts'', ''.tsx'',
      ''.mjs'', ''.cjs'', ''.java'', ''.kt'', ''.go'', ''.rs'', ''.rb'', ''.php'', ''.c'', ''.cc'',
      ''.cpp'', ''.h'', ''.hpp'', ''.cs'', ''.swift'', ''.scala'', ''.lua'', ''.sh'', ''.bash'',
      ''.zsh'', ''.ps1'', ''.toml'', ''.yaml'', ''.yml'', ''.json'', ''.sql'', ''.md'', ''.html'',
      ''.css'', ''.scss'']"

definition RANK_SUFFIX_BOOSTS :: "(string \<times> real) list" where
  "RANK_SUFFIX_BOOSTS = [(''.astro'', 0.9), (''.tsx'', 0.5), (''.jsx'', 0.4)]"

definition RANK_EXACT_FILENAME_PENALTIES :: "(string \<times> real) list" where
  "RANK_EXACT_FILENAME_PENALTIES =
     [(''package-lock.json'', 1.8), (''pnpm-lock.yaml'', 1.8), (''yarn.lock'', 1.8),
      (''poetry.lock'', 1.4), (''cargo.lock'', 1.4), (''composer.lock'', 1.2)]"

definition RANK_NAME_BOOSTS :: "(string \<times> real) list" where
  "RANK_NAME_BOOSTS =
     [(''core'', 0.9), (''main'', 0.8), (''app'', 0.7), (''index'', 0.6), (''server'', 0.7),
      (''client'', 0.5), (''api'', 0.6), (''router'', 0.5), (''service'', 0.4), (''model'', 0.3),
      (''store'', 0.3)]"

definition RANK_PATH_PENALTIES :: "(string \<times> real) list" where
  "RANK_PATH_PENALTIES =
     [(''tests'', 0.85), (''test'', 0.85), (''docs'', 0.65), (''examples'', 0.7),
      (''scripts'', 0.8), (''migrations'', 0.8)]"

definition RANK_PATH_BOOSTS :: "(string \<times> real) list" where
  "RANK_PATH_BOOSTS =
     [(''src'', 0.15), (''components'', 0.2), (''pages'', 0.2), (''layouts'', 0.15)]"

text \<open>
  Replacing every backslash by a slash (the \<open>replace\<close> call on the paths), \<open>s.count(c)\<close> and
  \<open>sub in s\<close>.
\<close>

definition replace_backslash :: "string \<Rightarrow> string" where
  "replace_backslash s = map (\<lambda>c. if c = CHR 0x5C then CHR ''/'' else c) s"

definition count_char :: "char \<Rightarrow> string \<Rightarrow> nat" where
  "count_char c s = length (filter (\<lambda>x. x = c) s)"

definition contains :: "string \<Rightarrow> string \<Rightarrow> bool" where
  "contains s sub = list_ex (\<lambda>i. take (length sub) (drop i s) = sub) [0..<Suc (length s)]"

text \<open>
  \<open>pathlib.Path\<close> on a POSIX system (Python 3.11): \<open>parts\<close> drops empty and \<open>.\<close> segments and
  starts with the root when the path is absolute; \<open>name\<close> is the last segment; \<open>suffix\<close> starts
  at the last dot of the name unless that dot is its first or its last character; \<open>stem\<close>
  is the name without the suffix.
\<close>

definition path_parts :: "string \<Rightarrow> string list" where
  "path_parts p =
     (let segs = filter (\<lambda>s. s \<noteq> [] \<and> s \<noteq> ''.'') (split_on CHR ''/'' p)
      in if startswith p ''//'' \<and> \<not> startswith p ''///'' then ''//'' # segs
         else if startswith p ''/'' then ''/'' # segs
         else segs)"

definition path_name :: "string \<Rightarrow> string" where
  "path_name p =
     (let segs = filter (\<lambda>s. s \<noteq> [] \<and> s \<noteq> ''.'') (split_on CHR ''/'' p)
      in if segs = [] then [] else last segs)"

definition rfind_dot :: "string \<Rightarrow> nat option" where
  "rfind_dot name =
     (case filter (\<lambda>i. name ! i = CHR ''.'') (rev [0..<length name]) of
        [] \<Rightarrow> None | i # _ \<Rightarrow> Some i)"

definition suffix_at :: "string \<Rightarrow> nat option" where
  "suffix_at name =
     (case rfind_dot name of
        None \<Rightarrow> None
      | Some i \<Rightarrow> if 0 < i \<and> i < length name - 1 then Some i else None)"

definition path_suffix :: "string \<Rightarrow> string" where
  "path_suffix p =
     (let name = path_name p in case suffix_at name of None \<Rightarrow> [] | Some i \<Rightarrow> drop i name)"

definition path_stem :: "string \<Rightarrow> string" where
  "path_stem p =
     (let name = path_name p in case suffix_at name of None \<Rightarrow> name | Some i \<Rightarrow> take i name)"

text \<open>
  The terms of the score in \<open>_rank_files\<close>: the focus bonus, one round of the loop over
  \<open>_RANK_NAME_BOOSTS\<close>, and one round of the loop over \<open>path_obj.parts[:-1]\<close>.
\<close>

definition focus_bonus :: "string set \<Rightarrow> string set \<Rightarrow> string \<Rightarrow> real" where
  "focus_bonus focus focus_basenames p =
     (if p \<in> focus then 25 else if path_name p \<in> focus_basenames then 4 else 0)"

definition name_boost_step :: "string \<Rightarrow> string \<times> real \<Rightarrow> real \<Rightarrow> real" where
  "name_boost_step stem nb s =
     (if stem = fst nb \<or> startswith stem (fst nb @ ''_'') \<or> endswith stem (''_'' @ fst nb)
      then s + snd nb else s)"

definition path_part_step :: "string \<Rightarrow> real \<Rightarrow> real" where
  "path_part_step part s =
     s + dict_get RANK_PATH_BOOSTS (lower part) 0 - dict_get RANK_PATH_PENALTIES (lower part) 0"

text \<open>
  The variable \<open>score\<close> at the end of one round of the loop over the analyses, before the
  floor \<open>max(0.0, score)\<close>, in the order in which the code adds to it.  Floats are modelled by
  reals; \<open>graph_scores\<close> is the dict, \<open>None\<close> and the empty dict being the empty map.
\<close>

definition raw_rank_score ::
  "string set \<Rightarrow> string set \<Rightarrow> (string \<rightharpoonup> real) \<Rightarrow> RepoMapFileAnalysis \<Rightarrow> real" where
  "raw_rank_score focus focus_basenames graph_scores analysis =
     (let p = replace_backslash (path analysis);
          suffix = lower (path_suffix p);
          depth = count_char CHR ''/'' p;
          score = 1.0;
          score = score + (if suffix \<in> set CODE_LIKE_SUFFIXES then 1.6 else 0);
          score = score + dict_get RANK_SUFFIX_BOOSTS suffix 0;
          score = score + focus_bonus focus focus_basenames p;
          score = score + max 0 (0.8 - real (min depth 10) * 0.08);
          score = score + min 1.5 (real_of_int (symbol_count analysis) * 0.2);
          score = score + min 0.8 (real_of_int (line_count analysis) / 400);
          stem = lower (path_stem p);
          score = fold (name_boost_step stem) RANK_NAME_BOOSTS score;
          score = fold path_part_step (butlast (path_parts p)) score;
          score = score - dict_get RANK_EXACT_FILENAME_PENALTIES (lower (path_name p)) 0;
          score = (if contains stem ''generated'' \<or> contains stem ''snapshot''
                   then score - 0.4 else score);
          score = score + 2.0 * max 0 (case graph_scores p of None \<Rightarrow> 0 | Some g \<Rightarrow> g)
      in score)"

text \<open>The entry appended for one analysis.\<close>

definition rank_entry ::
  "string set \<Rightarrow> string set \<Rightarrow> (string \<rightharpoonup> real) \<Rightarrow> RepoMapFileAnalysis
     \<Rightarrow> RepoMapRankingEntry" where
  "rank_entry focus focus_basenames graph_scores analysis =
     \<lparr>entry_path = replace_backslash (path analysis),
      entry_score = max 0 (raw_rank_score focus focus_basenames graph_scores analysis),
      entry_symbols = symbols analysis\<rparr>"

text \<open>
  \<open>_rank_files\<close> (repomap.py, lines 840 to 888).  \<open>list.sort\<close> is stable, as \<open>sort_key\<close> is;
  the key \<open>(-score, path)\<close> orders by score descending and then by path ascending.
\<close>

definition rank_files ::
  "RepoMapFileAnalysis list \<Rightarrow> string list \<Rightarrow> int \<Rightarrow> (string \<rightharpoonup> real)
     \<Rightarrow> RepoMapRankingEntry list" where
  "rank_files analyses focus_files max_files graph_scores =
     (let focus = set (map replace_backslash focus_files);
          focus_basenames = path_name ` focus;
          scored = map (rank_entry focus focus_basenames graph_scores) analyses
      in take (nat (max 0 max_files))
           (sort_key (\<lambda>item. (- entry_score item, entry_path item)) scored))"

section \<open>repomap.py: the PageRank scorer\<close>

text \<open>
  A dict of scores is an association list with distinct keys in insertion order.
  \<open>dict_keys ks\<close> are the keys of a dict built over the list \<open>ks\<close> (each key once, at its
  first place), and \<open>dict_comp ks f\<close> is the comprehension \<open>{k: f(k) for k in ks}\<close>.
\<close>

definition dict_keys :: "'a list \<Rightarrow> 'a list" where
  "dict_keys ks = rev (remdups (rev ks))"

definition dict_comp :: "'a list \<Rightarrow> ('a \<Rightarrow> 'v) \<Rightarrow> ('a \<times> 'v) list" where
  "dict_comp ks f = map (\<lambda>k. (k, f k)) (dict_keys ks)"

text \<open>
  \<open>_pagerank_scores_networkx\<close>.  The library is not code of this repository: \<open>nx paths edges\<close>
  is \<open>None\<close> when the import or \<open>nx.pagerank\<close> raises and otherwise \<open>Some\<close> of the lookup
  \<open>pagerank.get(path, 0.0)\<close>.
\<close>

definition pagerank_scores_networkx ::
  "(string list \<Rightarrow> (string \<times> string) list \<Rightarrow> (string \<Rightarrow> real) option)
     \<Rightarrow> string list \<Rightarrow> (string \<times> string) list \<Rightarrow> (string \<times> real) list" where
  "pagerank_scores_networkx nx paths edges =
     (case nx paths edges of None \<Rightarrow> [] | Some pagerank \<Rightarrow> dict_comp paths pagerank)"

text \<open>
  \<open>_pagerank_scores_simple\<close>: \<open>outgoing[src]\<close> and \<open>incoming[dst]\<close> (sets, written as distinct
  lists), one round of the \<open>for _ in range(max_iter)\<close> loop, which yields \<open>next_rank\<close> and
  \<open>diff\<close>, the loop with its \<open>break\<close>, and the function.  Floats are modelled by reals.
\<close>

definition outgoing_of :: "string list \<Rightarrow> (string \<times> string) list \<Rightarrow> string \<Rightarrow> string list" where
  "outgoing_of nodes edges src =
     remdups (map snd
       (filter (\<lambda>e. fst e \<in> set nodes \<and> snd e \<in> set nodes \<and> fst e = src) edges))"

definition incoming_of :: "string list \<Rightarrow> (string \<times> string) list \<Rightarrow> string \<Rightarrow> string list" where
  "incoming_of nodes edges dst =
     remdups (map fst
       (filter (\<lambda>e. fst e \<in> set nodes \<and> snd e \<in> set nodes \<and> snd e = dst) edges))"

definition pagerank_step ::
  "string list \<Rightarrow> (string \<times> string) list \<Rightarrow> real \<Rightarrow> (string \<times> real) list
     \<Rightarrow> (string \<times> real) list \<times> real" where
  "pagerank_step nodes edges alpha rank =
     (let n = real (length nodes);
          base = (1 - alpha) / n;
          dangling = sum_list (map (\<lambda>node. dict_get rank node 0)
                       (filter (\<lambda>node. outgoing_of nodes edges node = []) (dict_keys nodes)));
          inbound = (\<lambda>node. sum_list (map
                       (\<lambda>src. if outgoing_of nodes edges src \<noteq> []
                              then dict_get rank src 0 / real (length (outgoing_of nodes edges src))
                              else 0)
                       (incoming_of nodes edges node)));
          val = (\<lambda>node. base + alpha * (inbound node + dangling / n));
          next_rank = dict_comp nodes val;
          diff = sum_list (map (\<lambda>node. \<bar>val node - dict_get rank node 0\<bar>) nodes)
      in (next_rank, diff))"

fun pagerank_iterate ::
  "nat \<Rightarrow> string list \<Rightarrow> (string \<times> string) list \<Rightarrow> real \<Rightarrow> real \<Rightarrow> (string \<times> real) list
     \<Rightarrow> (string \<times> real) list" where
  "pagerank_iterate 0 nodes edges alpha tol rank = rank"
| "pagerank_iterate (Suc k) nodes edges alpha tol rank =
     (case pagerank_step nodes edges alpha rank of
        (next_rank, diff) \<Rightarrow>
          if diff \<le> tol then next_rank
          else pagerank_iterate k nodes edges alpha tol next_rank)"

definition pagerank_scores_simple ::
  "string list \<Rightarrow> (string \<times> string) list \<Rightarrow> real \<Rightarrow> nat \<Rightarrow> real \<Rightarrow> (string \<times> real) list" where
  "pagerank_scores_simple paths edges alpha max_iter tol =
     (let nodes = paths; n = length nodes
      in if n = 0 then []
         else
           (let rank = pagerank_iterate max_iter nodes edges alpha tol
                         (dict_comp nodes (\<lambda>_. 1 / real n));
                total_rank = sum_list (map snd rank)
            in if total_rank \<le> 0 then dict_comp nodes (\<lambda>_. 0)
               else map (\<lambda>item. (fst item, snd item / total_rank)) rank))"

text \<open>
  \<open>_pagerank_scores_with_backend\<close> (repomap.py, lines 761 to 774), for a non-empty list of
  paths first the choice of the backend (\<open>scores\<close> and \<open>backend\<close> after the \<open>if not scores\<close>),
  then \<open>max(scores.values(), default=0.0)\<close>, then the function.
\<close>

definition raw_pagerank_scores ::
  "(string list \<Rightarrow> (string \<times> string) list \<Rightarrow> (string \<Rightarrow> real) option)
     \<Rightarrow> string list \<Rightarrow> (string \<times> string) list \<Rightarrow> (string \<times> real) list \<times> string" where
  "raw_pagerank_scores nx paths edges =
     (let scores = pagerank_scores_networkx nx paths edges
      in if scores = [] then (pagerank_scores_simple paths edges 0.85 100 (1 / 10 ^ 6), ''simple'')
         else (scores, ''networkx''))"

definition dict_peak :: "(string \<times> real) list \<Rightarrow> real" where
  "dict_peak scores = (if scores = [] then 0 else Max (set (map snd scores)))"

definition pagerank_scores_with_backend ::
  "(string list \<Rightarrow> (string \<times> string) list \<Rightarrow> (string \<Rightarrow> real) option)
     \<Rightarrow> string list \<Rightarrow> (string \<times> string) list \<Rightarrow> (string \<times> real) list \<times> string" where
  "pagerank_scores_with_backend nx paths edges =
     (if paths = [] then ([], ''none'')
      else
        (case raw_pagerank_scores nx paths edges of
           (scores, backend) \<Rightarrow>
             (let peak = dict_peak scores
              in if peak \<le> 0 then (dict_comp paths (\<lambda>_. 0), backend)
                 else (dict_comp paths (\<lambda>p. dict_get scores p 0 / peak), backend))))"

section \<open>repomap.py: the orchestrator\<close>

text \<open>
  The values of the dicts \<open>provenance\<close>, \<open>stats\<close> and \<open>error\<close>; a dict is an association list
  in insertion order.  \<open>RepoMapArtifact\<close> has its fields as in the source, \<open>ranking\<close> and
  \<open>text\<close> being written \<open>artifact_ranking\<close> and \<open>artifact_text\<close>.
\<close>

datatype pyval = PyNone | PyBool bool | PyInt int | PyStr string | PyStrList "string list"

record RepoMapArtifact =
  ok :: bool
  generated_at :: string
  provenance :: "(string \<times> pyval) list"
  stats :: "(string \<times> pyval) list"
  artifact_ranking :: "RepoMapRankingEntry list"
  artifact_text :: string
  error :: "(string \<times> pyval) list option"
  schema_version :: string

record RepoMapRunResult =
  artifact :: RepoMapArtifact
  artifact_path :: "string option"
  session_artifact_path :: "string option"

text \<open>
  The fields of the configuration that \<open>run_repomap\<close> reads with \<open>_get_attr\<close>; a config
  that is \<open>None\<close> gives the defaults.
\<close>

record RepomapConfig =
  watch_paths :: "string list"
  ignored_dirs :: "string list"
  config_artifact_path :: string
  max_ranked_files :: int
  max_text_bytes :: int
  prefer_ast_graph :: bool

text \<open>
  What the run sees of the world.  A directory tree, where a file carries the answer of
  \<open>_is_text_candidate\<close>; names are not empty and hold no slash.  An \<open>OSError\<close> that a
  filesystem call raises, \<open>TimeoutError\<close> being a subclass of \<open>OSError\<close>.  What a scope entry
  resolves to: a path outside the root (\<open>relative_to\<close> raises \<open>ValueError\<close>), a path that does
  not exist, a file with its root-relative path (empty when \<open>_norm_rel_path\<close> fails), a
  directory with its root-relative path and its content, or an \<open>OSError\<close> raised by
  \<open>resolve\<close>, \<open>exists\<close> or \<open>is_file\<close>.
\<close>

datatype fs_node = FsFile bool | FsDir "(string \<times> fs_node) list"

datatype os_error = OSError string | OSTimeoutError string

datatype scope_target =
    Outside
  | Missing
  | TargetFile string bool
  | TargetDir string "(string \<times> fs_node) list"
  | Raises os_error

text \<open>
  The environment of one run: the resolved root and whether it is a directory; whether a
  scope entry or a fallback name exists under the root; \<open>elapsed_ms k\<close>, the value of
  \<open>_duration_ms(start)\<close> at the \<open>k\<close>-th point where the run may look at the clock; the
  reading of \<open>_now_iso8601()\<close>; the answer of \<open>repomap_missing_dependencies()\<close>; the
  filesystem below the scope entries; the result of \<open>_analyze_file\<close> for a discovered path;
  \<open>_build_dependency_edges\<close>, which is not modelled and on which no property below depends;
  the library PageRank; the float format \<open>.3f\<close>; and the \<open>OSError\<close> of the artifact write,
  if it raises one.
\<close>

record repomap_env =
  root_path :: string
  root_is_dir :: bool
  target_exists :: "string \<Rightarrow> bool"
  elapsed_ms :: "nat \<Rightarrow> int"
  now_iso8601 :: string
  missing_dependencies :: "string list"
  scope_target :: "string \<Rightarrow> scope_target"
  analyze_file :: "string \<Rightarrow> RepoMapFileAnalysis"
  dependency_edges :: "RepoMapFileAnalysis list \<Rightarrow> (string \<times> string) list"
  networkx :: "string list \<Rightarrow> (string \<times> string) list \<Rightarrow> (string \<Rightarrow> real) option"
  score_format :: "real \<Rightarrow> string"
  write_failure :: "string option"

definition SCHEMA_VERSION :: string where
  "SCHEMA_VERSION = ''repomap_artifact_v1''"

definition DEFAULT_IGNORED_DIRS :: "string list" where
  "DEFAULT_IGNORED_DIRS =
     [''.git'', ''.hg'', ''.svn'', ''.venv'', ''venv'', ''.tox'', ''.mypy_cache'',
      ''.pytest_cache'', ''.ruff_cache'', ''.cortex'', ''node_modules'', ''dist'', ''build'',
      ''__pycache__'', ''.next'', ''coverage'']"

definition FALLBACK_SCOPE_CANDIDATES :: "string list" where
  "FALLBACK_SCOPE_CANDIDATES = [''cortex'', ''src'', ''lib'', ''app'', ''packages'', ''tests'']"

text \<open>\<open>_timed_out\<close> (repomap.py, lines 989 to 994), at the \<open>k\<close>-th look at the clock.\<close>

definition timed_out :: "repomap_env \<Rightarrow> nat \<Rightarrow> int option \<Rightarrow> bool" where
  "timed_out env k timeout_ms =
     (case timeout_ms of
        None \<Rightarrow> False
      | Some t \<Rightarrow> if t \<le> 0 then True else elapsed_ms env k > t)"

text \<open>
  \<open>_failure_artifact\<close> (repomap.py, lines 930 to 966).  \<open>now\<close> and \<open>duration\<close> are the readings
  of \<open>_now_iso8601()\<close> and \<open>_duration_ms(start)\<close>.  \<open>ZERO_STATS\<close> names the stats it writes.
\<close>

definition ZERO_STATS :: "(string \<times> pyval) list" where
  "ZERO_STATS =
     [(''files_parsed'', PyInt 0), (''symbols_found'', PyInt 0), (''graph_edges'', PyInt 0),
      (''byte_count'', PyInt 0)]"

definition py_optional_int :: "int option \<Rightarrow> pyval" where
  "py_optional_int v = (case v of None \<Rightarrow> PyNone | Some i \<Rightarrow> PyInt i)"

definition failure_artifact ::
  "string \<Rightarrow> string \<Rightarrow> string \<Rightarrow> string \<Rightarrow> string list \<Rightarrow> string list \<Rightarrow> int \<Rightarrow> int option
     \<Rightarrow> string \<Rightarrow> RepoMapArtifact" where
  "failure_artifact now code message source_root scope focus_files duration timeout_ms
     failed_stage =
     \<lparr>ok = False,
      generated_at = now,
      provenance =
        [(''method'', PyStr ''none''), (''source_root'', PyStr source_root),
         (''scope'', PyStrList scope), (''focus_files'', PyStrList focus_files),
         (''duration_ms'', PyInt duration), (''timeout_ms'', py_optional_int timeout_ms)],
      stats =
        [(''files_parsed'', PyInt 0), (''symbols_found'', PyInt 0), (''graph_edges'', PyInt 0),
         (''byte_count'', PyInt 0)],
      artifact_ranking = [],
      artifact_text = [],
      error =
        Some [(''code'', PyStr code), (''message'', PyStr message),
              (''retryable'',
               PyBool (code \<in> set [''deps_missing'', ''timeout'', ''scan_failed'', ''write_failed''])),
              (''failed_stage'', PyStr failed_stage)],
      schema_version = SCHEMA_VERSION\<rparr>"

text \<open>
  \<open>_select_scope\<close> and \<open>_scope_targets_exist\<close>.  \<open>is_blank s\<close> is \<open>not s.strip()\<close>, for the
  ASCII whitespace that \<open>strip\<close> removes.
\<close>

definition is_space :: "char \<Rightarrow> bool" where
  "is_space c = (byte_of c \<in> set [9, 10, 11, 12, 13, 28, 29, 30, 31, 32])"

definition is_blank :: "string \<Rightarrow> bool" where
  "is_blank s = list_all is_space s"

definition scope_targets_exist :: "repomap_env \<Rightarrow> string list \<Rightarrow> bool" where
  "scope_targets_exist env scope = list_ex (target_exists env) scope"

definition select_scope :: "repomap_env \<Rightarrow> string list \<Rightarrow> bool \<Rightarrow> string list" where
  "select_scope env requested_scope user_scope_supplied =
     (let kept = filter (\<lambda>v. \<not> is_blank v) requested_scope;
          normalized = (if kept = [] then [''src''] else kept)
      in if user_scope_supplied \<or> scope_targets_exist env normalized then normalized
         else
           (let fallback = filter (target_exists env) FALLBACK_SCOPE_CANDIDATES
            in if fallback = [] then [''.''] else fallback))"

text \<open>
  \<open>_ignored\<close> (repomap.py, lines 1004 to 1016).  For a path of separators only the code
  raises \<open>IndexError\<close> at \<open>parts[-1]\<close>; \<open>as_posix\<close> gives no such path, and the model answers
  \<open>True\<close> there.
\<close>

definition ignored :: "string \<Rightarrow> string list \<Rightarrow> bool" where
  "ignored rel_path ignored_names =
     (if rel_path = [] then True
      else
        (let parts = filter (\<lambda>p. p \<noteq> []) (split_on CHR ''/'' (replace_backslash rel_path))
         in if list_ex (\<lambda>part. part \<in> set ignored_names) (butlast parts) then True
            else if parts = [] then True
            else
              (let filename = last parts
               in if startswith filename ''.'' \<and> filename \<notin> set [''.env'', ''.gitignore'']
                  then True
                  else endswith filename ''.min.js'' \<or> endswith filename ''.min.css''
                       \<or> endswith filename ''.map'')))"

text \<open>
  \<open>_discover_files\<close> (repomap.py, lines 431 to 472).  \<open>add_file\<close> is the test and the append
  for one file, \<open>seen\<close> being the set of \<open>discovered\<close>.  \<open>walk_node\<close> lists what \<open>os.walk\<close> yields,
  top down and with the pruning of \<open>dirnames\<close>: for every directory visited, its files with
  their root-relative paths.  \<open>walk_dirs\<close> is the body of the loop over \<open>os.walk\<close>, with the
  timeout check at every directory; \<open>discover_scope\<close> is the loop over the scope entries,
  with the timeout check at every entry.  The state is the list \<open>discovered\<close> and the number
  of looks at the clock so far.
\<close>

definition add_file :: "string list \<Rightarrow> string \<times> bool \<Rightarrow> string list \<Rightarrow> string list" where
  "add_file ignored_names f discovered =
     (if fst f \<noteq> [] \<and> fst f \<notin> set discovered \<and> \<not> ignored (fst f) ignored_names \<and> snd f
      then discovered @ [fst f] else discovered)"

definition rel_join :: "string \<Rightarrow> string \<Rightarrow> string" where
  "rel_join rel name = (if rel = [] \<or> rel = ''.'' then name else rel @ ''/'' @ name)"

fun walk_node :: "string list \<Rightarrow> string \<Rightarrow> fs_node \<Rightarrow> (string \<times> bool) list list" where
  "walk_node ignored_names rel (FsFile is_text) = []"
| "walk_node ignored_names rel (FsDir children) =
     concat (map (\<lambda>c. case snd c of FsFile is_text \<Rightarrow> [(rel_join rel (fst c), is_text)]
                         | FsDir _ \<Rightarrow> []) children)
     # concat (map (\<lambda>c. if ignored (rel_join rel (fst c)) ignored_names then []
                          else walk_node ignored_names (rel_join rel (fst c)) (snd c))
                 children)"

datatype discover_error = PredicateTimeout | OsRaised os_error

fun walk_dirs ::
  "repomap_env \<Rightarrow> string list \<Rightarrow> int option \<Rightarrow> (string \<times> bool) list list \<Rightarrow> string list \<times> nat
     \<Rightarrow> discover_error + string list \<times> nat" where
  "walk_dirs env ignored_names timeout_ms [] st = Inr st"
| "walk_dirs env ignored_names timeout_ms (filenames # rest) st =
     (if timed_out env (snd st) timeout_ms then Inl PredicateTimeout
      else walk_dirs env ignored_names timeout_ms rest
             (fold (add_file ignored_names) filenames (fst st), Suc (snd st)))"

fun discover_scope ::
  "repomap_env \<Rightarrow> string list \<Rightarrow> int option \<Rightarrow> string list \<Rightarrow> string list \<times> nat
     \<Rightarrow> discover_error + string list \<times> nat" where
  "discover_scope env ignored_names timeout_ms [] st = Inr st"
| "discover_scope env ignored_names timeout_ms (scope_entry # rest) st =
     (if timed_out env (snd st) timeout_ms then Inl PredicateTimeout
      else
        (case scope_target env scope_entry of
           Outside \<Rightarrow> discover_scope env ignored_names timeout_ms rest (fst st, Suc (snd st))
         | Missing \<Rightarrow> discover_scope env ignored_names timeout_ms rest (fst st, Suc (snd st))
         | Raises e \<Rightarrow> Inl (OsRaised e)
         | TargetFile rel is_text \<Rightarrow>
             discover_scope env ignored_names timeout_ms rest
               (add_file ignored_names (rel, is_text) (fst st), Suc (snd st))
         | TargetDir rel children \<Rightarrow>
             (case walk_dirs env ignored_names timeout_ms
                     (walk_node ignored_names rel (FsDir children)) (fst st, Suc (snd st)) of
                Inl e \<Rightarrow> Inl e
              | Inr st' \<Rightarrow> discover_scope env ignored_names timeout_ms rest st')))"

definition discover_files ::
  "repomap_env \<Rightarrow> string list \<Rightarrow> string list \<Rightarrow> int option \<Rightarrow> nat
     \<Rightarrow> discover_error + string list \<times> nat" where
  "discover_files env scope ignored_dirs_arg timeout_ms k =
     (case discover_scope env (DEFAULT_IGNORED_DIRS @ ignored_dirs_arg) timeout_ms
             (if scope = [] then [''src''] else scope) ([], k) of
        Inl e \<Rightarrow> Inl e
      | Inr st \<Rightarrow> Inr (sort (fst st), snd st))"

text \<open>\<open>_resolve_output_path\<close>, as a string.\<close>

definition resolve_output_path :: "string \<Rightarrow> string \<Rightarrow> string" where
  "resolve_output_path root_str output_path =
     (if startswith output_path ''/'' then output_path else root_str @ ''/'' @ output_path)"

text \<open>
  The artifact that \<open>run_repomap\<close> assembles after discovery (lines 355 to 397): analyses,
  edges and PageRank when the graph mode is on, ranking, rendering, provenance and stats.
\<close>

definition success_artifact ::
  "repomap_env \<Rightarrow> string list \<Rightarrow> string list \<Rightarrow> int \<Rightarrow> int \<Rightarrow> bool \<Rightarrow> int option
     \<Rightarrow> string list \<Rightarrow> nat \<Rightarrow> RepoMapArtifact" where
  "success_artifact env selected_scope selected_focus selected_max_files
       selected_max_text_bytes ast_mode_active timeout_ms discovered k =
     (let analyses = map (\<lambda>rel. (analyze_file env rel)\<lparr>path := rel\<rparr>) discovered;
          edges = (if ast_mode_active then dependency_edges env analyses else []);
          scored = (if ast_mode_active
                    then pagerank_scores_with_backend (networkx env) (map path analyses) edges
                    else ([], ''none''));
          ranked = rank_files analyses selected_focus selected_max_files (map_of (fst scored));
          rendered = render_text (score_format env) ranked selected_max_text_bytes
      in \<lparr>ok = True,
          generated_at = now_iso8601 env,
          provenance =
            [(''method'', PyStr (if ast_mode_active then ''ast_pagerank''
                                 else ''heuristic_fallback'')),
             (''source_root'', PyStr (root_path env)),
             (''scope'', PyStrList selected_scope),
             (''focus_files'', PyStrList selected_focus),
             (''duration_ms'', PyInt (elapsed_ms env k)),
             (''timeout_ms'', py_optional_int timeout_ms),
             (''ast_requested'', PyBool ast_mode_active),
             (''ast_enabled'', PyBool ast_mode_active),
             (''missing_deps'', PyStrList (missing_dependencies env)),
             (''pagerank_backend'', PyStr (snd scored))],
          stats =
            [(''files_parsed'', PyInt (int (length discovered))),
             (''symbols_found'', PyInt (sum_list (map symbol_count analyses))),
             (''graph_edges'', PyInt (int (length edges))),
             (''byte_count'', PyInt (int (length rendered)))],
          artifact_ranking = ranked,
          artifact_text = rendered,
          error = None,
          schema_version = SCHEMA_VERSION\<rparr>)"

text \<open>The result \<open>RepoMapRunResult(artifact=_failure_artifact(...))\<close>.\<close>

definition failed_run ::
  "repomap_env \<Rightarrow> string \<Rightarrow> string \<Rightarrow> string list \<Rightarrow> string list \<Rightarrow> nat \<Rightarrow> int option \<Rightarrow> string
     \<Rightarrow> RepoMapRunResult" where
  "failed_run env code message selected_scope selected_focus k timeout_ms failed_stage =
     \<lparr>artifact = failure_artifact (now_iso8601 env) code message (root_path env) selected_scope
                   selected_focus (elapsed_ms env k) timeout_ms failed_stage,
      artifact_path = None,
      session_artifact_path = None\<rparr>"

text \<open>
  \<open>run_repomap\<close> (repomap.py, lines 260 to 428).  \<open>except TimeoutError\<close> stands before
  \<open>except OSError\<close>, so it also catches a \<open>TimeoutError\<close> that the filesystem raises.
\<close>

definition run_repomap ::
  "repomap_env \<Rightarrow> RepomapConfig option \<Rightarrow> string list option \<Rightarrow> string list option
     \<Rightarrow> string option \<Rightarrow> int option \<Rightarrow> int option \<Rightarrow> string option \<Rightarrow> int option
     \<Rightarrow> RepoMapRunResult" where
  "run_repomap env repomap_config scope focus_files output_path max_files max_text_bytes_arg
       session_id timeout_ms =
     (let config_scope = (case repomap_config of None \<Rightarrow> [''src''] | Some c \<Rightarrow> watch_paths c);
          config_ignored = (case repomap_config of None \<Rightarrow> [] | Some c \<Rightarrow> ignored_dirs c);
          config_artifact =
            (case repomap_config of None \<Rightarrow> ''.cortex/artifacts/repomap/latest.json''
             | Some c \<Rightarrow> config_artifact_path c);
          config_max_files = (case repomap_config of None \<Rightarrow> 20 | Some c \<Rightarrow> max_ranked_files c);
          config_max_text_bytes =
            (case repomap_config of None \<Rightarrow> 8192 | Some c \<Rightarrow> max_text_bytes c);
          config_prefer_ast =
            (case repomap_config of None \<Rightarrow> True | Some c \<Rightarrow> prefer_ast_graph c);
          requested_scope =
            (case scope of
               Some s \<Rightarrow> if s \<noteq> [] then s
                         else if config_scope \<noteq> [] then config_scope else [''src'']
             | None \<Rightarrow> if config_scope \<noteq> [] then config_scope else [''src'']);
          selected_scope = select_scope env requested_scope (scope \<noteq> None);
          selected_focus = (case focus_files of None \<Rightarrow> [] | Some f \<Rightarrow> f);
          selected_output =
            (case output_path of None \<Rightarrow> config_artifact
             | Some p \<Rightarrow> if p = [] then config_artifact else p);
          selected_max_files =
            max 1 (case max_files of None \<Rightarrow> config_max_files | Some n \<Rightarrow> n);
          selected_max_text_bytes =
            max 256 (case max_text_bytes_arg of None \<Rightarrow> config_max_text_bytes | Some n \<Rightarrow> n);
          ast_mode_active = config_prefer_ast
      in if \<not> root_is_dir env then
           failed_run env ''scan_failed''
             (''Project root does not exist or is not a directory: '' @ root_path env)
             selected_scope selected_focus 0 timeout_ms ''discovery''
         else if timed_out env 0 timeout_ms then
           failed_run env ''timeout'' ''Repo-map generation timed out before discovery started.''
             selected_scope selected_focus 1 timeout_ms ''discovery''
         else
           (case discover_files env selected_scope config_ignored timeout_ms 1 of
              Inl PredicateTimeout \<Rightarrow>
                failed_run env ''timeout'' ''Repo-map generation timed out during file discovery.''
                  selected_scope selected_focus 1 timeout_ms ''discovery''
            | Inl (OsRaised (OSTimeoutError msg)) \<Rightarrow>
                failed_run env ''timeout'' ''Repo-map generation timed out during file discovery.''
                  selected_scope selected_focus 1 timeout_ms ''discovery''
            | Inl (OsRaised (OSError msg)) \<Rightarrow>
                failed_run env ''scan_failed'' (''Failed during file discovery: '' @ msg)
                  selected_scope selected_focus 1 timeout_ms ''discovery''
            | Inr found \<Rightarrow>
                (case write_failure env of
                   Some msg \<Rightarrow>
                     failed_run env ''write_failed''
                       (''Failed to write repo-map artifact: '' @ msg)
                       selected_scope selected_focus (Suc (snd found)) timeout_ms ''write''
                 | None \<Rightarrow>
                     \<lparr>artifact = success_artifact env selected_scope selected_focus
                                   selected_max_files selected_max_text_bytes ast_mode_active
                                   timeout_ms (fst found) (snd found),
                      artifact_path = Some (resolve_output_path (root_path env) selected_output),
                      session_artifact_path =
                        (case session_id of
                           None \<Rightarrow> None
                         | Some s \<Rightarrow>
                             if s = [] then None
                             else Some (root_path env @ ''/.cortex/artifacts/repomap/'' @ s
                                        @ ''.json''))\<rparr>)))"


definition selected_scope_of ::
  "repomap_env \<Rightarrow> RepomapConfig option \<Rightarrow> string list option \<Rightarrow> string list" where
  "selected_scope_of env repomap_config scope =
     (let config_scope = (case repomap_config of None \<Rightarrow> [''src''] | Some c \<Rightarrow> watch_paths c);
          requested_scope =
            (case scope of
               Some s \<Rightarrow> if s \<noteq> [] then s
                         else if config_scope \<noteq> [] then config_scope else [''src'']
             | None \<Rightarrow> if config_scope \<noteq> [] then config_scope else [''src''])
      in select_scope env requested_scope (scope \<noteq> None))"

definition selected_focus_of :: "string list option \<Rightarrow> string list" where
  "selected_focus_of focus_files = (case focus_files of None \<Rightarrow> [] | Some f \<Rightarrow> f)"

definition config_ignored_of :: "RepomapConfig option \<Rightarrow> string list" where
  "config_ignored_of repomap_config =
     (case repomap_config of None \<Rightarrow> [] | Some c \<Rightarrow> ignored_dirs c)"

section \<open>A concrete FTS5 engine and example stores\<close>

text \<open>
  A small model of SQLite's FTS5 with its default tokenizer, for ASCII text and for query
  terms made of letters and digits only: the tokens of a text are its maximal runs of
  letters and digits, case-folded, and a row matches an \<open>OR\<close> query when one of the terms is
  among the tokens of its indexed text.  The indexed text is the one
  \<open>list_graveyard_fts_candidates\<close> inserts: summary, reason and \<open>keywords_json\<close>.  The
  engine is used for concrete stores only; the general theorems hold for every engine.
\<close>

text \<open>\<open>json.dumps\<close> of a list of strings that need no escaping.\<close>

definition json_dumps_strings :: "string list \<Rightarrow> string" where
  "json_dumps_strings ks =
     ''['' @ join '', '' (map (\<lambda>k. [CHR 0x22] @ k @ [CHR 0x22]) ks) @ '']''"

definition is_alnum :: "char \<Rightarrow> bool" where
  "is_alnum c = (is_upper c \<or> is_lower c \<or> is_digit c)"

fun alnum_runs :: "string \<Rightarrow> string \<Rightarrow> string list" where
  "alnum_runs cur [] = (if cur = [] then [] else [cur])"
| "alnum_runs cur (c # cs) =
     (if is_alnum c then alnum_runs (cur @ [lower_char c]) cs
      else (if cur = [] then [] else [cur]) @ alnum_runs [] cs)"

definition fts5_indexed_text :: "graveyard_row \<Rightarrow> string" where
  "fts5_indexed_text r =
     row_summary r @ '' '' @ row_reason r @ '' '' @ json_dumps_strings (row_keywords r)"

definition fts5_word_engine :: "string list \<Rightarrow> graveyard_row list \<Rightarrow> nat \<Rightarrow> int list option" where
  "fts5_word_engine terms rows limit =
     Some (take limit (map row_id
       (filter (\<lambda>r. list_ex (\<lambda>t. t \<in> set (alnum_runs [] (fts5_indexed_text r))) terms) rows)))"


text \<open>Concrete configurations, rows, stores and matches.\<close>

definition example_config :: GraveyardConfig where
  "example_config =
     \<lparr>enabled = True, max_matches = 5, similarity_threshold = 0.2, min_keyword_overlap = 1\<rparr>"

definition negative_max_config :: GraveyardConfig where
  "negative_max_config = example_config\<lparr>max_matches := - 1\<rparr>"

definition disabled_config :: GraveyardConfig where
  "disabled_config = example_config\<lparr>enabled := False\<rparr>"

definition cache_row :: "int \<Rightarrow> graveyard_row" where
  "cache_row i =
     \<lparr>row_id = i, row_session_id = None, row_summary = ''cache'', row_reason = ''cache'',
      row_files = [], row_keywords = [''cache''], row_created_at = ''t''\<rparr>"

definition pagination_row :: graveyard_row where
  "pagination_row =
     \<lparr>row_id = 2, row_session_id = None, row_summary = ''pagination'',
      row_reason = ''pagination'', row_files = [''src/db/query.py''],
      row_keywords = [''pagination''], row_created_at = ''t''\<rparr>"

definition two_cache_store :: SQLiteStore where
  "two_cache_store =
     \<lparr>graveyard = [cache_row 1, cache_row 2], autoincrement = 2, fts5 = fts5_word_engine\<rparr>"


definition cache_match :: "int \<Rightarrow> GraveyardMatch" where
  "cache_match i =
     \<lparr>entry_id = i, score = 0.75, summary = ''cache'', reason = ''cache'', files = [],
      keyword_overlap = [''cache''], file_overlap = [], semantic_score = 1, created_at = ''t''\<rparr>"



definition plain_analysis :: "string \<Rightarrow> RepoMapFileAnalysis" where
  "plain_analysis p =
     \<lparr>path = p, byte_size = 0, line_count = 0, symbols = [], symbol_count = 0,
      import_targets = []\<rparr>"








text \<open>An answer of the library for two files: 0.2 for every path but \<open>b\<close>, which has 0.8.\<close>

definition example_networkx ::
  "string list \<Rightarrow> (string \<times> string) list \<Rightarrow> (string \<Rightarrow> real) option" where
  "example_networkx paths edges = Some (\<lambda>p. if p = ''b'' then 0.8 else 0.2)"

definition no_networkx ::
  "string list \<Rightarrow> (string \<times> string) list \<Rightarrow> (string \<Rightarrow> real) option" where
  "no_networkx paths edges = None"

text \<open>
  Example environments: a root that does not exist; a root with one file \<open>src/app.py\<close>; the
  same root on a filesystem whose calls raise \<open>TimeoutError\<close>; and the same root with an
  output path that cannot be written.
\<close>

definition missing_root_env :: repomap_env where
  "missing_root_env =
     \<lparr>root_path = ''/repo'', root_is_dir = False, target_exists = (\<lambda>p. False),
      elapsed_ms = (\<lambda>k. 0), now_iso8601 = ''2026-01-01T00:00:00Z'', missing_dependencies = [],
      scope_target = (\<lambda>p. Missing), analyze_file = plain_analysis,
      dependency_edges = (\<lambda>analyses. []), networkx = no_networkx,
      score_format = (\<lambda>x. ''1.000''), write_failure = None\<rparr>"

definition small_repo_env :: repomap_env where
  "small_repo_env =
     missing_root_env
       \<lparr>root_is_dir := True, target_exists := (\<lambda>p. p = ''src''),
        scope_target :=
          (\<lambda>p. if p = ''src'' then TargetDir ''src'' [(''app.py'', FsFile True)] else Missing)\<rparr>"


definition unwritable_env :: repomap_env where
  "unwritable_env = small_repo_env\<lparr>write_failure := Some ''Is a directory''\<rparr>"

section \<open>Properties of the normalizer\<close>

text \<open>
  Claim C3.  The claim says that every word of the synonym table normalizes to its canonical
  form.  The normalizer stems before it looks the table up, so the table is asked for
  \<open>redi\<close>, \<open>cach\<close> and \<open>slownes\<close>, which it does not hold: \<open>redis\<close>, \<open>caching\<close> and
  \<open>slowness\<close> come out stemmed and not canonical.  The other twelve words come out as the
  claim says.
\<close>

theorem normalize_token_synonym_words:
  "map normalize_token
     [''redis'', ''caching'', ''latency'', ''slow'', ''slowness'', ''crash'', ''crashed'',
      ''failure'', ''failed'', ''error'', ''errors'', ''exception'', ''exceptions'',
      ''connection'', ''connections'']
   = [''redi'', ''cach'', ''timeout'', ''timeout'', ''slownes'', ''fail'', ''fail'',
      ''fail'', ''fail'', ''fail'', ''fail'', ''fail'', ''fail'', ''connect'', ''connect'']"
  by code_simp


section \<open>Properties of the similarity scorer\<close>

lemma set_slice_to: "set (slice_to k xs) \<subseteq> set xs"
  by (auto simp: slice_to_def dest: in_set_takeD)

lemma set_sort_reverse: "set (sort_reverse key xs) = set xs"
  by (simp add: sort_reverse_def)

lemma find_similar_in_scored:
  assumes "m \<in> set (find_similar cfg st q fs mm)"
  shows "m \<in> set (scored_matches cfg (idf_source_of st q) q fs
                   (load_candidate_entries st (tokenize q)))"
proof -
  from assms have "find_similar cfg st q fs mm \<noteq> []" by auto
  then have eq: "find_similar cfg st q fs mm =
      slice_to (effective_max_matches cfg mm)
        (sort_reverse (\<lambda>m. (score m, entry_id m))
           (scored_matches cfg (idf_source_of st q) q fs
              (load_candidate_entries st (tokenize q))))"
    by (auto simp: find_similar_def Let_def split: if_splits)
  with assms set_slice_to show ?thesis
    by (metis set_sort_reverse subsetD)
qed

lemma in_scored_matches:
  assumes "m \<in> set (scored_matches cfg src q fs entries)"
  shows "\<exists>e. e \<in> set entries \<and>
     score_entry cfg src (keywords_of q) (set (tokenize q)) (query_files_of fs) e = [m]"
proof -
  from assms obtain e where e: "e \<in> set entries"
     and m: "m \<in> set (score_entry cfg src (keywords_of q) (set (tokenize q)) (query_files_of fs) e)"
    by (auto simp: scored_matches_def)
  from m have "score_entry cfg src (keywords_of q) (set (tokenize q)) (query_files_of fs) e = [m]"
    by (auto simp: score_entry_def Let_def split: if_splits)
  with e show ?thesis by blast
qed

lemma doc_freq_le: "doc_freq src t \<le> length src"
  by (simp add: doc_freq_def)

lemma query_idf_ge_1: "1 \<le> query_idf src t"
proof -
  have "real (doc_freq src t) + 1 \<le> real (length src) + 1"
    using doc_freq_le [of src t] by simp
  then have "1 \<le> (real (length src) + 1) / (real (doc_freq src t) + 1)"
    by (simp add: pos_le_divide_eq)
  then have "0 \<le> ln ((real (length src) + 1) / (real (doc_freq src t) + 1))"
    by simp
  then show ?thesis by (simp add: query_idf_def)
qed

lemma query_weight_eq:
  assumes "finite qk"
  shows "query_weight src qk = (if qk = {} then 1 else sum (query_idf src) qk)"
proof (cases "qk = {}")
  case True then show ?thesis by (simp add: query_weight_def)
next
  case False
  then obtain t where t: "t \<in> qk" by blast
  have "query_idf src t \<le> sum (query_idf src) qk"
    using assms t query_idf_ge_1 [of src]
    by (intro member_le_sum) (auto intro: order_trans [of 0 1])
  with query_idf_ge_1 [of src t] have "0 < sum (query_idf src) qk" by linarith
  with False show ?thesis by (simp add: query_weight_def Let_def)
qed






lemma score_entry_props:
  assumes "score_entry cfg src qk qts qf e = [m]"
  shows "entry_id m = row_id e"
    and "keyword_overlap m = keyword_overlap_of qk e"
    and "file_overlap m = file_overlap_of qf e"
    and "semantic_score m = semantic_score_of qts e"
    and "score m = combined_score (keyword_score_of src qk (keyword_overlap_of qk e))
                     (file_score_of qf (file_overlap_of qf e)) (semantic_score_of qts e)"
    and "passes_gate cfg (keyword_overlap_of qk e) (file_overlap_of qf e) (semantic_score_of qts e)"
    and "similarity_threshold cfg \<le> score m"
  using assms by (auto simp: score_entry_def Let_def split: if_splits)

lemma find_similar_entry:
  assumes "m \<in> set (find_similar cfg st q fs mm)"
  shows "\<exists>e. e \<in> set (load_candidate_entries st (tokenize q)) \<and>
           score_entry cfg (idf_source_of st q) (keywords_of q) (set (tokenize q))
             (query_files_of fs) e = [m]"
  using find_similar_in_scored [OF assms] by (rule in_scored_matches)


lemma sorted_sort_reverse:
  "sorted_wrt (\<lambda>a b. key b \<le> key a) (sort_reverse key xs)"
proof -
  have "sorted (map key (sort_key key (rev xs)))" by simp
  then have "sorted_wrt (\<lambda>a b. key a \<le> key b) (sort_key key (rev xs))"
    by (simp add: sorted_wrt_map)
  then show ?thesis by (simp add: sort_reverse_def sorted_wrt_rev)
qed

lemma sorted_wrt_slice_to: "sorted_wrt P xs \<Longrightarrow> sorted_wrt P (slice_to k xs)"
  by (simp add: slice_to_def sorted_wrt_take)

lemma length_slice_to: "0 \<le> k \<Longrightarrow> int (length (slice_to k xs)) \<le> k"
  by (simp add: slice_to_def)

lemma sorted_slice_sort_reverse:
  "sorted_wrt (\<lambda>a b. score b < score a \<or> (score b = score a \<and> entry_id b \<le> entry_id a))
     (slice_to k (sort_reverse (\<lambda>m. (score m, entry_id m)) (xs :: GraveyardMatch list)))"
proof -
  have "sorted_wrt (\<lambda>a b. (score b, entry_id b) \<le> (score a, entry_id a))
          (slice_to k (sort_reverse (\<lambda>m. (score m, entry_id m)) xs))"
    by (intro sorted_wrt_slice_to sorted_sort_reverse)
  then show ?thesis
    by (rule sorted_wrt_mono_rel [rotated]) (auto simp: less_eq_prod_def)
qed

lemma find_similar_sorted:
  "sorted_wrt (\<lambda>a b. score b < score a \<or> (score b = score a \<and> entry_id b \<le> entry_id a))
     (find_similar cfg st q fs mm)"
  by (simp add: find_similar_def Let_def sorted_slice_sort_reverse)

lemma find_similar_length:
  "0 \<le> effective_max_matches cfg mm \<Longrightarrow>
   int (length (find_similar cfg st q fs mm)) \<le> effective_max_matches cfg mm"
  by (simp add: find_similar_def Let_def length_slice_to)

text \<open>
  Claim C4, amended.  For every match \<open>m\<close> that \<open>find_similar\<close> returns: (a) \<open>m\<close> passes the
  gate; (b) its score is 0.45 times the share of the query's IDF weight that the overlapping
  keywords carry (0 when the query has no keyword), plus 0.25 times the share of the query
  files that overlap (0 when there is no query file), plus 0.30 times the semantic score,
  and it reaches the threshold; and its overlaps and semantic score are those of one of
  the candidate entries.  (c) The list is sorted by score descending, ties by record id
  descending, and when the effective max-matches (the argument unless it is \<open>None\<close> or 0, else
  the configured value) is not negative, the list is no longer than it.
\<close>

theorem find_similar_gate_score_order:
  shows "(\<forall>m \<in> set (find_similar cfg st q fs mm).
            (min_keyword_overlap cfg \<le> int (length (keyword_overlap m))
               \<or> file_overlap m \<noteq> []
               \<or> similarity_threshold cfg \<le> semantic_score m)
          \<and> score m =
              0.45 * (if keywords_of q = {} then 0
                      else sum_list (map (query_idf (idf_source_of st q)) (keyword_overlap m))
                           / sum (query_idf (idf_source_of st q)) (keywords_of q))
              + 0.25 * (if query_files_of fs = {} then 0
                        else real (length (file_overlap m)) / real (card (query_files_of fs)))
              + 0.30 * semantic_score m
          \<and> similarity_threshold cfg \<le> score m
          \<and> (\<exists>e \<in> set (load_candidate_entries st (tokenize q)).
                entry_id m = row_id e
                \<and> keyword_overlap m = sorted_list_of_set (keywords_of q \<inter> set (row_keywords e))
                \<and> file_overlap m =
                    sorted_list_of_set (query_files_of fs \<inter> set (map norm_path (row_files e)))
                \<and> semantic_score m =
                    token_jaccard (set (tokenize q))
                      (set (tokenize (row_summary e @ '' '' @ row_reason e)))))
     \<and> sorted_wrt (\<lambda>a b. score b < score a \<or> (score b = score a \<and> entry_id b \<le> entry_id a))
          (find_similar cfg st q fs mm)
     \<and> (0 \<le> effective_max_matches cfg mm \<longrightarrow>
          int (length (find_similar cfg st q fs mm)) \<le> effective_max_matches cfg mm)"
proof (intro conjI ballI impI)
  fix m assume m: "m \<in> set (find_similar cfg st q fs mm)"
  let ?src = "idf_source_of st q" and ?qk = "keywords_of q" and ?qf = "query_files_of fs"
  let ?qts = "set (tokenize q)"
  from find_similar_entry [OF m] obtain e where
    e: "e \<in> set (load_candidate_entries st (tokenize q))" and
    se: "score_entry cfg ?src ?qk ?qts ?qf e = [m]" by blast
  note p = score_entry_props [OF se]
  have fk: "finite ?qk" by (simp add: keywords_of_def)
  have ff: "finite ?qf" by (simp add: query_files_of_def)
  show "min_keyword_overlap cfg \<le> int (length (keyword_overlap m))
               \<or> file_overlap m \<noteq> []
               \<or> similarity_threshold cfg \<le> semantic_score m"
    using p(6) by (auto simp: passes_gate_def p(2,3,4))
  show "similarity_threshold cfg \<le> score m" by (rule p(7))
  have kw: "keyword_score_of ?src ?qk (keyword_overlap m) =
      (if ?qk = {} then 0
       else sum_list (map (query_idf ?src) (keyword_overlap m)) / sum (query_idf ?src) ?qk)"
  proof (cases "?qk = {}")
    case True
    then have "keyword_overlap m = []" by (simp add: p(2) keyword_overlap_of_def)
    with True show ?thesis by (simp add: keyword_score_of_def)
  next
    case False
    then show ?thesis by (simp add: keyword_score_of_def query_weight_eq [OF fk])
  qed
  have fl: "file_score_of ?qf (file_overlap m) =
      (if ?qf = {} then 0 else real (length (file_overlap m)) / real (card ?qf))"
  proof (cases "?qf = {}")
    case True then show ?thesis by (simp add: file_score_of_def)
  next
    case False
    then have "0 < card ?qf" using ff by (simp add: card_gt_0_iff)
    then have "max 1 (card ?qf) = card ?qf" by simp
    with False show ?thesis by (simp add: file_score_of_def)
  qed
  have "score m = keyword_score_of ?src ?qk (keyword_overlap m) * 0.45
                 + file_score_of ?qf (file_overlap m) * 0.25 + semantic_score m * 0.30"
    by (simp add: p combined_score_def)
  then show "score m =
              0.45 * (if ?qk = {} then 0
                      else sum_list (map (query_idf ?src) (keyword_overlap m))
                           / sum (query_idf ?src) ?qk)
              + 0.25 * (if ?qf = {} then 0
                        else real (length (file_overlap m)) / real (card ?qf))
              + 0.30 * semantic_score m"
    by (simp only: kw fl mult.commute)
  show "\<exists>e \<in> set (load_candidate_entries st (tokenize q)).
                entry_id m = row_id e
                \<and> keyword_overlap m = sorted_list_of_set (?qk \<inter> set (row_keywords e))
                \<and> file_overlap m =
                    sorted_list_of_set (?qf \<inter> set (map norm_path (row_files e)))
                \<and> semantic_score m =
                    token_jaccard ?qts
                      (set (tokenize (row_summary e @ '' '' @ row_reason e)))"
    using e p(1,2,3,4)
    by (auto simp: keyword_overlap_of_def file_overlap_of_def semantic_score_of_def)
next
  show "sorted_wrt (\<lambda>a b. score b < score a \<or> (score b = score a \<and> entry_id b \<le> entry_id a))
          (find_similar cfg st q fs mm)"
    by (rule find_similar_sorted)
next
  assume "0 \<le> effective_max_matches cfg mm"
  then show "int (length (find_similar cfg st q fs mm)) \<le> effective_max_matches cfg mm"
    by (rule find_similar_length)
qed

text \<open>
  Claim C10.  With \<open>enabled\<close> false, \<open>record_failure\<close> returns the store it was given, for every
  input, and \<open>find_similar\<close> returns the empty list for every query and every store, so its
  result does not depend on what the store holds or answers.
\<close>

theorem disabled_graveyard_is_inert:
  assumes "\<not> enabled cfg"
  shows "record_failure cfg now st session_id summary_text reason_text fs = st
     \<and> find_similar cfg st' q qfs mm = []"
  using assms by (simp add: record_failure_def find_similar_def)

section \<open>Concrete runs\<close>

lemma tokenize_cache: "tokenize ''cache'' = [''cache'']" by code_simp
lemma tokenize_cache_cache: "tokenize ''cache cache'' = [''cache'', ''cache'']" by code_simp
lemma fts_token_cache: "FTS_TOKEN_RE_match ''cache''" by code_simp
lemma runs_cache: "alnum_runs [] (fts5_indexed_text (cache_row i)) = [''cache'', ''cache'', ''cache'']"
  unfolding fts5_indexed_text_def cache_row_def by simp code_simp

lemma rows_two: "list_graveyard_rows two_cache_store 200 = [cache_row 2, cache_row 1]"
  by (simp add: list_graveyard_rows_def two_cache_store_def cache_row_def)

lemma row_id_cache [simp]: "row_id (cache_row i) = i" by (simp add: cache_row_def)
lemma row_id_pagination [simp]: "row_id pagination_row = 2" by (simp add: pagination_row_def)
lemma fts5_two: "fts5 two_cache_store = fts5_word_engine" by (simp add: two_cache_store_def)
lemma engine_two: "fts5_word_engine [''cache''] [cache_row 2, cache_row 1] 80 = Some [2, 1]"
  by (simp add: fts5_word_engine_def runs_cache)

lemma cands_two: "load_candidate_entries two_cache_store [''cache''] = [cache_row 2, cache_row 1]"
  by (simp add: load_candidate_entries_def list_graveyard_fts_candidates_def list_graveyard_def
      rows_two fts_token_cache fts5_two engine_two Let_def)





lemma idf_cache_two: "query_idf [cache_row 2, cache_row 1] ''cache'' = 1"
  by (simp add: query_idf_def doc_freq_def cache_row_def)

lemma score_cache_two:
  "score_entry example_config [cache_row 2, cache_row 1] {''cache''} {''cache''} {} (cache_row i)
     = [cache_match i]"
  by (simp add: score_entry_def keyword_overlap_of_def file_overlap_of_def keyword_score_of_def
      file_score_of_def semantic_score_of_def combined_score_def passes_gate_def
      query_weight_def token_jaccard_def Let_def)
     (simp add: cache_row_def tokenize_cache_cache example_config_def cache_match_def
        query_idf_def doc_freq_def)

lemma find_two:
  "find_similar example_config two_cache_store ''cache'' [] None = [cache_match 2, cache_match 1]"
  by (simp add: find_similar_def idf_source_of_def tokenize_cache cands_two list_graveyard_def
      rows_two scored_matches_def keywords_of_def query_files_of_def score_cache_two
      sort_reverse_def slice_to_def effective_max_matches_def Let_def)
     (simp add: example_config_def cache_match_def)

section \<open>Narrowing against the full scan\<close>










section \<open>Witnesses and counterexamples\<close>

lemma tokens_of_cache: "set (tokenize ''cache'') = {''cache''}"
  by (simp add: tokenize_cache)

lemma score_cache_negative:
  "score_entry negative_max_config [cache_row 2, cache_row 1] {''cache''} {''cache''} {}
     (cache_row i) = [cache_match i]"
  by (simp add: score_entry_def keyword_overlap_of_def file_overlap_of_def keyword_score_of_def
      file_score_of_def semantic_score_of_def combined_score_def passes_gate_def
      query_weight_def token_jaccard_def Let_def)
     (simp add: cache_row_def tokenize_cache_cache negative_max_config_def example_config_def
        cache_match_def query_idf_def doc_freq_def)

lemma find_two_negative:
  "find_similar negative_max_config two_cache_store ''cache'' [] None = [cache_match 2]"
  by (simp add: find_similar_def idf_source_of_def tokenize_cache cands_two list_graveyard_def
      rows_two scored_matches_def keywords_of_def query_files_of_def score_cache_negative
      sort_reverse_def slice_to_def effective_max_matches_def Let_def)
     (simp add: negative_max_config_def example_config_def cache_match_def)


theorem find_similar_gate_score_order_witness:
  "find_similar example_config two_cache_store ''cache'' [] None = [cache_match 2, cache_match 1]
   \<and> similarity_threshold example_config \<le> score (cache_match 2)
   \<and> (min_keyword_overlap example_config \<le> int (length (keyword_overlap (cache_match 2)))
        \<or> file_overlap (cache_match 2) \<noteq> []
        \<or> similarity_threshold example_config \<le> semantic_score (cache_match 2))
   \<and> 0 \<le> effective_max_matches example_config None
   \<and> int (length (find_similar example_config two_cache_store ''cache'' [] None))
        \<le> effective_max_matches example_config None"
proof -
  have mem: "cache_match 2 \<in> set (find_similar example_config two_cache_store ''cache'' [] None)"
    by (simp add: find_two)
  have k: "0 \<le> effective_max_matches example_config None"
    by (simp add: effective_max_matches_def example_config_def)
  from find_similar_gate_score_order [of example_config two_cache_store "''cache''" "[]" None]
    mem k find_two
  show ?thesis by blast
qed

text \<open>
  Claim C4 as stated fails for a negative max-matches: with \<open>max_matches = -1\<close> in the
  configuration the slice \<open>scored[:-1]\<close> drops the last of the two matches and returns one,
  which is more than \<open>-1\<close>.
\<close>

theorem find_similar_negative_max_counterexample:
  "find_similar negative_max_config two_cache_store ''cache'' [] None = [cache_match 2]
   \<and> effective_max_matches negative_max_config None = - 1
   \<and> \<not> int (length (find_similar negative_max_config two_cache_store ''cache'' [] None))
         \<le> effective_max_matches negative_max_config None"
proof -
  have k: "effective_max_matches negative_max_config None = - 1"
    by (simp add: effective_max_matches_def negative_max_config_def)
  show ?thesis by (simp add: find_two_negative k)
qed

theorem disabled_graveyard_is_inert_witness:
  "\<not> enabled disabled_config
   \<and> record_failure disabled_config ''now'' two_cache_store None ''cache'' ''cache down'' []
       = two_cache_store
   \<and> find_similar disabled_config two_cache_store ''cache'' [] None = []"
proof -
  have d: "\<not> enabled disabled_config" by (simp add: disabled_config_def)
  from disabled_graveyard_is_inert [OF d] d show ?thesis by blast
qed









section \<open>Properties of the text renderer\<close>




















section \<open>Properties of the ranking heuristic\<close>










section \<open>Concrete runs of the repo-map engine\<close>

















section \<open>Properties of the PageRank scorer\<close>

lemma keys_dict_comp: "map fst (dict_comp ks f) = dict_keys ks"
  by (simp add: dict_comp_def comp_def)

lemma set_dict_keys: "set (dict_keys ks) = set ks"
  by (simp add: dict_keys_def)

lemma distinct_dict_keys: "distinct (dict_keys ks)"
  by (simp add: dict_keys_def)

lemma dict_keys_Nil: "dict_keys ks = [] \<longleftrightarrow> ks = []"
  using set_dict_keys [of ks] by (metis set_empty)

lemma dict_get_comp: "k \<in> set ks \<Longrightarrow> dict_get (dict_comp ks f) k d = f k"
proof -
  assume "k \<in> set ks"
  then have "k \<in> set (dict_keys ks)" by (simp add: set_dict_keys)
  then have "map_of (map (\<lambda>k. (k, f k)) (dict_keys ks)) k = Some (f k)"
    by (induction "dict_keys ks" arbitrary: ks) (auto simp: map_of_map_restrict)
  then show ?thesis by (simp add: dict_get_def dict_comp_def)
qed


lemma keys_pagerank_step: "map fst (fst (pagerank_step nodes edges alpha rank)) = dict_keys nodes"
  by (simp add: pagerank_step_def Let_def keys_dict_comp)

lemma keys_pagerank_iterate:
  "map fst rank = dict_keys nodes \<Longrightarrow>
   map fst (pagerank_iterate k nodes edges alpha tol rank) = dict_keys nodes"
proof (induction k arbitrary: rank)
  case 0
  then show ?case by simp
next
  case (Suc k)
  obtain next_rank diff where st: "pagerank_step nodes edges alpha rank = (next_rank, diff)"
    by (metis surj_pair)
  with keys_pagerank_step [of nodes edges alpha rank]
  have nk: "map fst next_rank = dict_keys nodes" by simp
  show ?case using st nk Suc.IH [OF nk] by simp
qed

lemma keys_pagerank_simple:
  assumes "paths \<noteq> []"
  shows "map fst (pagerank_scores_simple paths edges alpha max_iter tol) = dict_keys paths"
proof -
  let ?rank = "pagerank_iterate max_iter paths edges alpha tol
                 (dict_comp paths (\<lambda>_. 1 / real (length paths)))"
  have k: "map fst ?rank = dict_keys paths"
    by (rule keys_pagerank_iterate) (rule keys_dict_comp)
  have "map fst (map (\<lambda>item. (fst item, snd item / t)) ?rank) = dict_keys paths" for t
    using k by (simp add: comp_def)
  with assms show ?thesis
    by (simp add: pagerank_scores_simple_def Let_def keys_dict_comp)
qed

lemma raw_pagerank_scores_keys:
  assumes "paths \<noteq> []"
  shows "map fst (fst (raw_pagerank_scores nx paths edges)) = dict_keys paths"
    and "snd (raw_pagerank_scores nx paths edges) \<in> {''networkx'', ''simple''}"
proof -
  show "map fst (fst (raw_pagerank_scores nx paths edges)) = dict_keys paths"
  proof (cases "pagerank_scores_networkx nx paths edges = []")
    case True
    then show ?thesis
      by (simp add: raw_pagerank_scores_def Let_def keys_pagerank_simple [OF assms])
  next
    case False
    then obtain pr where "nx paths edges = Some pr"
      by (auto simp: pagerank_scores_networkx_def split: option.splits)
    then have "pagerank_scores_networkx nx paths edges = dict_comp paths pr"
      by (simp add: pagerank_scores_networkx_def)
    with False show ?thesis by (simp add: raw_pagerank_scores_def Let_def keys_dict_comp)
  qed
  show "snd (raw_pagerank_scores nx paths edges) \<in> {''networkx'', ''simple''}"
    by (simp add: raw_pagerank_scores_def Let_def)
qed

lemma dict_get_member:
  assumes "distinct (map fst d)" "(k, v) \<in> set d"
  shows "dict_get d k dflt = v"
  using assms by (simp add: dict_get_def)

lemma dict_peak_attained:
  assumes keys: "map fst scores = dict_keys paths" and ne: "paths \<noteq> []"
  shows "\<exists>p \<in> set paths. dict_get scores p 0 = dict_peak scores"
    and "\<forall>p \<in> set paths. dict_get scores p 0 \<le> dict_peak scores"
proof -
  have d: "distinct (map fst scores)" by (simp add: keys distinct_dict_keys)
  have sne: "scores \<noteq> []" using keys ne dict_keys_Nil [of paths] by auto
  then have pk: "dict_peak scores = Max (set (map snd scores))" by (simp add: dict_peak_def)
  have fin: "finite (set (map snd scores))" and nonempty: "set (map snd scores) \<noteq> {}"
    using sne by simp_all
  from Max_in [OF fin nonempty] pk obtain p where pv: "(p, dict_peak scores) \<in> set scores"
    by auto
  then have "p \<in> set (map fst scores)" by force
  then have pin: "p \<in> set paths" by (simp add: keys set_dict_keys)
  from dict_get_member [OF d pv] pin
  show "\<exists>p \<in> set paths. dict_get scores p 0 = dict_peak scores" by blast
  show "\<forall>p \<in> set paths. dict_get scores p 0 \<le> dict_peak scores"
  proof
    fix q assume "q \<in> set paths"
    then have "q \<in> set (map fst scores)" by (simp add: keys set_dict_keys)
    then obtain v where qv: "(q, v) \<in> set scores" by auto
    then have "v \<in> set (map snd scores)" by force
    then have "v \<le> dict_peak scores" using pk fin by simp
    with dict_get_member [OF d qv] show "dict_get scores q 0 \<le> dict_peak scores" by simp
  qed
qed

text \<open>
  Claim C6.  For every non-empty list of nodes and every list of edges, whichever backend
  gave the raw scores (the library when it answers, the power iteration otherwise): if the
  highest raw score is positive, every node's final score is its raw score divided by the
  highest, none is above 1, and a node with the highest raw score has exactly 1; if no raw
  score is positive, every node's final score is 0.  Floats are modelled by reals.
\<close>

theorem pagerank_rescaled_to_peak:
  assumes "paths \<noteq> []"
  shows "snd (pagerank_scores_with_backend nx paths edges)
           = snd (raw_pagerank_scores nx paths edges)
     \<and> snd (raw_pagerank_scores nx paths edges) \<in> {''networkx'', ''simple''}
     \<and> map fst (fst (pagerank_scores_with_backend nx paths edges)) = dict_keys paths
     \<and> ((0 < dict_peak (fst (raw_pagerank_scores nx paths edges))
          \<and> (\<forall>p \<in> set paths.
                dict_get (fst (pagerank_scores_with_backend nx paths edges)) p 0
                  = dict_get (fst (raw_pagerank_scores nx paths edges)) p 0
                    / dict_peak (fst (raw_pagerank_scores nx paths edges))
                \<and> dict_get (fst (pagerank_scores_with_backend nx paths edges)) p 0 \<le> 1)
          \<and> (\<exists>p \<in> set paths.
                dict_get (fst (raw_pagerank_scores nx paths edges)) p 0
                  = dict_peak (fst (raw_pagerank_scores nx paths edges))
                \<and> dict_get (fst (pagerank_scores_with_backend nx paths edges)) p 0 = 1))
        \<or> (dict_peak (fst (raw_pagerank_scores nx paths edges)) \<le> 0
            \<and> (\<forall>p \<in> set paths.
                  dict_get (fst (pagerank_scores_with_backend nx paths edges)) p 0 = 0)))"
proof -
  obtain scores backend where raw: "raw_pagerank_scores nx paths edges = (scores, backend)"
    by (metis surj_pair)
  let ?peak = "dict_peak scores"
  let ?out = "fst (pagerank_scores_with_backend nx paths edges)"
  from raw_pagerank_scores_keys [OF assms, of nx edges] raw
  have keys: "map fst scores = dict_keys paths" and be: "backend \<in> {''networkx'', ''simple''}"
    by simp_all
  note att = dict_peak_attained [OF keys assms]
  have sb: "snd (pagerank_scores_with_backend nx paths edges) = backend"
    using assms raw by (simp add: pagerank_scores_with_backend_def Let_def)
  show ?thesis
  proof (cases "?peak \<le> 0")
    case True
    with assms raw have out: "?out = dict_comp paths (\<lambda>_. 0)"
      by (simp add: pagerank_scores_with_backend_def Let_def)
    then have "\<forall>p \<in> set paths. dict_get ?out p 0 = 0" by (simp add: dict_get_comp)
    with True sb be out raw show ?thesis by (simp add: keys_dict_comp)
  next
    case False
    then have pos: "0 < ?peak" by simp
    with assms raw have out: "?out = dict_comp paths (\<lambda>p. dict_get scores p 0 / ?peak)"
      by (simp add: pagerank_scores_with_backend_def Let_def)
    have v: "dict_get ?out p 0 = dict_get scores p 0 / ?peak" if "p \<in> set paths" for p
      using that by (simp add: out dict_get_comp)
    have le: "dict_get ?out p 0 \<le> 1" if "p \<in> set paths" for p
      using v [OF that] att(2) that pos by (simp add: divide_le_eq_1_pos)
    from att(1) obtain p where p: "p \<in> set paths" "dict_get scores p 0 = ?peak" by blast
    with v [OF p(1)] pos have one: "dict_get ?out p 0 = 1" by simp
    have keys_out: "map fst ?out = dict_keys paths" by (simp add: out keys_dict_comp)
    from pos v le p one sb be keys_out raw show ?thesis by auto
  qed
qed

lemma example_networkx_run:
  "pagerank_scores_with_backend example_networkx [''a'', ''b''] [(''a'', ''b'')]
     = ([(''a'', 1 / 4), (''b'', 1)], ''networkx'')"
  by code_simp

lemma no_networkx_run:
  "pagerank_scores_with_backend no_networkx [''a'', ''b''] []
     = ([(''a'', 1), (''b'', 1)], ''simple'')"
  by code_simp

theorem pagerank_rescaled_to_peak_witness:
  "[''a'', ''b''] \<noteq> []
   \<and> snd (raw_pagerank_scores example_networkx [''a'', ''b''] [(''a'', ''b'')])
       \<in> {''networkx'', ''simple''}
   \<and> pagerank_scores_with_backend example_networkx [''a'', ''b''] [(''a'', ''b'')]
       = ([(''a'', 1 / 4), (''b'', 1)], ''networkx'')
   \<and> pagerank_scores_with_backend no_networkx [''a'', ''b''] []
       = ([(''a'', 1), (''b'', 1)], ''simple'')"
proof -
  have ne: "[''a'', ''b''] \<noteq> []" by simp
  from pagerank_rescaled_to_peak [OF ne, of example_networkx "[(''a'', ''b'')]"]
  have "snd (raw_pagerank_scores example_networkx [''a'', ''b''] [(''a'', ''b'')])
       \<in> {''networkx'', ''simple''}" by blast
  with ne example_networkx_run no_networkx_run show ?thesis by blast
qed

section \<open>Properties of the orchestrator\<close>

lemma failure_artifact_shape:
  "\<not> ok (failure_artifact now code message source_root scope focus duration timeout_ms stage)
   \<and> stats (failure_artifact now code message source_root scope focus duration timeout_ms stage)
       = ZERO_STATS
   \<and> artifact_ranking
         (failure_artifact now code message source_root scope focus duration timeout_ms stage) = []
   \<and> artifact_text
         (failure_artifact now code message source_root scope focus duration timeout_ms stage) = []
   \<and> error (failure_artifact now code message source_root scope focus duration timeout_ms stage)
       = Some [(''code'', PyStr code), (''message'', PyStr message),
               (''retryable'',
                PyBool (code \<in> {''deps_missing'', ''timeout'', ''scan_failed'', ''write_failed''})),
               (''failed_stage'', PyStr stage)]"
  by (simp add: failure_artifact_def ZERO_STATS_def)

lemma success_artifact_ok: "ok (success_artifact env ss sf mf mtb ast t d k)"
  by (simp add: success_artifact_def Let_def)

lemma run_repomap_no_root:
  "\<not> root_is_dir env \<Longrightarrow>
   run_repomap env cfg scope focus out mf mtb sid timeout_ms
     = failed_run env ''scan_failed''
         (''Project root does not exist or is not a directory: '' @ root_path env)
         (selected_scope_of env cfg scope) (selected_focus_of focus) 0 timeout_ms ''discovery''"
  by (simp add: run_repomap_def selected_scope_of_def selected_focus_of_def Let_def)

lemma run_repomap_expired:
  "root_is_dir env \<Longrightarrow> timed_out env 0 timeout_ms \<Longrightarrow>
   run_repomap env cfg scope focus out mf mtb sid timeout_ms
     = failed_run env ''timeout'' ''Repo-map generation timed out before discovery started.''
         (selected_scope_of env cfg scope) (selected_focus_of focus) 1 timeout_ms ''discovery''"
  by (simp add: run_repomap_def selected_scope_of_def selected_focus_of_def Let_def)

lemma run_repomap_discovery_fails:
  assumes "root_is_dir env" "\<not> timed_out env 0 timeout_ms"
    and "discover_files env (selected_scope_of env cfg scope) (config_ignored_of cfg) timeout_ms 1
           = Inl e"
  shows "run_repomap env cfg scope focus out mf mtb sid timeout_ms
     = (case e of
          OsRaised (OSError msg) \<Rightarrow>
            failed_run env ''scan_failed'' (''Failed during file discovery: '' @ msg)
              (selected_scope_of env cfg scope) (selected_focus_of focus) 1 timeout_ms
              ''discovery''
        | _ \<Rightarrow>
            failed_run env ''timeout'' ''Repo-map generation timed out during file discovery.''
              (selected_scope_of env cfg scope) (selected_focus_of focus) 1 timeout_ms
              ''discovery'')"
  using assms
  by (simp add: run_repomap_def selected_scope_of_def selected_focus_of_def config_ignored_of_def
      Let_def split: discover_error.splits os_error.splits)

lemma run_repomap_write_fails:
  assumes "root_is_dir env" "\<not> timed_out env 0 timeout_ms"
    and "discover_files env (selected_scope_of env cfg scope) (config_ignored_of cfg) timeout_ms 1
           = Inr found"
    and "write_failure env = Some msg"
  shows "run_repomap env cfg scope focus out mf mtb sid timeout_ms
     = failed_run env ''write_failed'' (''Failed to write repo-map artifact: '' @ msg)
         (selected_scope_of env cfg scope) (selected_focus_of focus) (Suc (snd found)) timeout_ms
         ''write''"
  using assms
  by (simp add: run_repomap_def selected_scope_of_def selected_focus_of_def config_ignored_of_def
      Let_def)

lemma run_repomap_succeeds:
  assumes "root_is_dir env" "\<not> timed_out env 0 timeout_ms"
    and "discover_files env (selected_scope_of env cfg scope) (config_ignored_of cfg) timeout_ms 1
           = Inr found"
    and "write_failure env = None"
  shows "ok (artifact (run_repomap env cfg scope focus out mf mtb sid timeout_ms))"
  using assms
  by (simp add: run_repomap_def selected_scope_of_def selected_focus_of_def config_ignored_of_def
      Let_def success_artifact_ok)

lemma timed_out_None: "\<not> timed_out env k None"
  by (simp add: timed_out_def)







lemma failed_run_shape:
  "\<not> ok (artifact (failed_run env code message ss sf k t stage))
   \<and> stats (artifact (failed_run env code message ss sf k t stage)) = ZERO_STATS
   \<and> artifact_ranking (artifact (failed_run env code message ss sf k t stage)) = []
   \<and> artifact_text (artifact (failed_run env code message ss sf k t stage)) = []
   \<and> error (artifact (failed_run env code message ss sf k t stage))
       = Some [(''code'', PyStr code), (''message'', PyStr message),
               (''retryable'',
                PyBool (code \<in> {''deps_missing'', ''timeout'', ''scan_failed'', ''write_failed''})),
               (''failed_stage'', PyStr stage)]"
  using failure_artifact_shape by (simp add: failed_run_def)

lemma failed_caseI:
  assumes "r = failed_run env code message ss sf k t stage"
    and "(code, stage) \<in> {(''scan_failed'', ''discovery''), (''timeout'', ''discovery''),
                           (''write_failed'', ''write'')}"
    and "message \<noteq> []"
  shows "\<exists>code message stage k.
        r = failed_run env code message ss sf k t stage
        \<and> (code, stage) \<in> {(''scan_failed'', ''discovery''), (''timeout'', ''discovery''),
                             (''write_failed'', ''write'')}
        \<and> message \<noteq> []"
  using assms by blast

lemma run_repomap_cases:
  "ok (artifact (run_repomap env cfg scope focus out mf mtb sid timeout_ms))
     \<and> root_is_dir env \<and> \<not> timed_out env 0 timeout_ms
     \<and> (\<exists>found. discover_files env (selected_scope_of env cfg scope) (config_ignored_of cfg)
                    timeout_ms 1 = Inr found)
     \<and> write_failure env = None
   \<or> (\<exists>code message stage k.
        run_repomap env cfg scope focus out mf mtb sid timeout_ms
          = failed_run env code message (selected_scope_of env cfg scope)
              (selected_focus_of focus) k timeout_ms stage
        \<and> (code, stage) \<in> {(''scan_failed'', ''discovery''), (''timeout'', ''discovery''),
                             (''write_failed'', ''write'')}
        \<and> message \<noteq> [])"
proof (cases "root_is_dir env")
  case False
  show ?thesis
    by (rule disjI2, rule failed_caseI [OF run_repomap_no_root [OF False]]) simp_all
next
  case root: True
  show ?thesis
  proof (cases "timed_out env 0 timeout_ms")
    case True
    show ?thesis
      by (rule disjI2, rule failed_caseI [OF run_repomap_expired [OF root True]]) simp_all
  next
    case nt: False
    show ?thesis
    proof (cases "discover_files env (selected_scope_of env cfg scope) (config_ignored_of cfg)
                    timeout_ms 1")
      case (Inl e)
      note r = run_repomap_discovery_fails [OF root nt Inl, of focus out mf mtb sid]
      show ?thesis
      proof (cases e)
        case PredicateTimeout
        with r have eq: "run_repomap env cfg scope focus out mf mtb sid timeout_ms
          = failed_run env ''timeout'' ''Repo-map generation timed out during file discovery.''
              (selected_scope_of env cfg scope) (selected_focus_of focus) 1 timeout_ms
              ''discovery''" by simp
        show ?thesis by (rule disjI2, rule failed_caseI [OF eq]) simp_all
      next
        case (OsRaised err)
        show ?thesis
        proof (cases err)
          case (OSError msg)
          with r OsRaised have eq: "run_repomap env cfg scope focus out mf mtb sid timeout_ms
            = failed_run env ''scan_failed'' (''Failed during file discovery: '' @ msg)
                (selected_scope_of env cfg scope) (selected_focus_of focus) 1 timeout_ms
                ''discovery''" by simp
          show ?thesis by (rule disjI2, rule failed_caseI [OF eq]) simp_all
        next
          case (OSTimeoutError msg)
          with r OsRaised have eq: "run_repomap env cfg scope focus out mf mtb sid timeout_ms
            = failed_run env ''timeout'' ''Repo-map generation timed out during file discovery.''
                (selected_scope_of env cfg scope) (selected_focus_of focus) 1 timeout_ms
                ''discovery''" by simp
          show ?thesis by (rule disjI2, rule failed_caseI [OF eq]) simp_all
        qed
      qed
    next
      case (Inr found)
      show ?thesis
      proof (cases "write_failure env")
        case None
        from run_repomap_succeeds [OF root nt Inr None] root nt Inr None show ?thesis by blast
      next
        case (Some msg)
        show ?thesis
          by (rule disjI2, rule failed_caseI [OF run_repomap_write_fails [OF root nt Inr Some]])
            simp_all
      qed
    qed
  qed
qed

text \<open>
  Claim C1.  The failure artifact, for every code, message and stage it is built from, has
  \<open>ok\<close> false, the four stats \<open>files_parsed\<close>, \<open>symbols_found\<close>, \<open>graph_edges\<close> and \<open>byte_count\<close> all
  0, an empty ranking, an empty text, and an error object with the four keys \<open>code\<close>,
  \<open>message\<close>, \<open>retryable\<close> and \<open>failed_stage\<close>.  Every run of \<open>run_repomap\<close>, in every
  environment and for every argument, whose artifact has \<open>ok\<close> false carries the zero stats,
  the empty ranking, the empty text, and an error object whose code and stage are one of
  \<open>scan_failed\<close> at discovery (root missing or not a directory, or a filesystem error while
  discovering), \<open>timeout\<close> at discovery, and \<open>write_failed\<close> at write, with a non-empty
  message and the retryable flag set.  The last conjunct says when the artifact has \<open>ok\<close> true,
  so the failing runs are exactly those four causes.
\<close>

theorem failure_artifacts_are_empty:
  "(\<not> ok (failure_artifact now code message source_root scope_list focus_list duration
             timeout_ms stage)
    \<and> stats (failure_artifact now code message source_root scope_list focus_list duration
               timeout_ms stage) = ZERO_STATS
    \<and> artifact_ranking (failure_artifact now code message source_root scope_list focus_list
                          duration timeout_ms stage) = []
    \<and> artifact_text (failure_artifact now code message source_root scope_list focus_list
                       duration timeout_ms stage) = []
    \<and> error (failure_artifact now code message source_root scope_list focus_list duration
               timeout_ms stage)
        = Some [(''code'', PyStr code), (''message'', PyStr message),
                (''retryable'',
                 PyBool (code \<in> {''deps_missing'', ''timeout'', ''scan_failed'',
                                   ''write_failed''})),
                (''failed_stage'', PyStr stage)])
   \<and> (\<not> ok (artifact (run_repomap env cfg scope focus out mf mtb sid t)) \<longrightarrow>
        stats (artifact (run_repomap env cfg scope focus out mf mtb sid t)) = ZERO_STATS
        \<and> artifact_ranking (artifact (run_repomap env cfg scope focus out mf mtb sid t)) = []
        \<and> artifact_text (artifact (run_repomap env cfg scope focus out mf mtb sid t)) = []
        \<and> (\<exists>c m s.
              error (artifact (run_repomap env cfg scope focus out mf mtb sid t))
                = Some [(''code'', PyStr c), (''message'', PyStr m),
                        (''retryable'', PyBool True), (''failed_stage'', PyStr s)]
              \<and> (c, s) \<in> {(''scan_failed'', ''discovery''), (''timeout'', ''discovery''),
                             (''write_failed'', ''write'')}
              \<and> m \<noteq> []))
   \<and> (ok (artifact (run_repomap env cfg scope focus out mf mtb sid t)) \<longleftrightarrow>
        root_is_dir env \<and> \<not> timed_out env 0 t
        \<and> (\<exists>found. discover_files env (selected_scope_of env cfg scope) (config_ignored_of cfg)
                       t 1 = Inr found)
        \<and> write_failure env = None)"
proof -
  let ?r = "run_repomap env cfg scope focus out mf mtb sid t"
  let ?good = "root_is_dir env \<and> \<not> timed_out env 0 t
        \<and> (\<exists>found. discover_files env (selected_scope_of env cfg scope) (config_ignored_of cfg)
                       t 1 = Inr found)
        \<and> write_failure env = None"
  have iff: "ok (artifact ?r) \<longleftrightarrow> ?good"
  proof
    assume o: "ok (artifact ?r)"
    from run_repomap_cases [of env cfg scope focus out mf mtb sid t] show ?good
    proof
      assume "ok (artifact ?r) \<and> ?good"
      then show ?good by blast
    next
      assume "\<exists>code message stage k.
        ?r = failed_run env code message (selected_scope_of env cfg scope)
              (selected_focus_of focus) k t stage
        \<and> (code, stage) \<in> {(''scan_failed'', ''discovery''), (''timeout'', ''discovery''),
                             (''write_failed'', ''write'')}
        \<and> message \<noteq> []"
      then obtain c m s k where "?r = failed_run env c m (selected_scope_of env cfg scope)
              (selected_focus_of focus) k t s" by blast
      with o failed_run_shape [of env c m _ _ k t s] show ?good by simp
    qed
  next
    assume ?good
    then obtain found where "root_is_dir env" "\<not> timed_out env 0 t"
      "discover_files env (selected_scope_of env cfg scope) (config_ignored_of cfg) t 1
         = Inr found" "write_failure env = None" by blast
    then show "ok (artifact ?r)" by (rule run_repomap_succeeds)
  qed
  have shape: "stats (artifact ?r) = ZERO_STATS
        \<and> artifact_ranking (artifact ?r) = []
        \<and> artifact_text (artifact ?r) = []
        \<and> (\<exists>c m s.
              error (artifact ?r)
                = Some [(''code'', PyStr c), (''message'', PyStr m),
                        (''retryable'', PyBool True), (''failed_stage'', PyStr s)]
              \<and> (c, s) \<in> {(''scan_failed'', ''discovery''), (''timeout'', ''discovery''),
                             (''write_failed'', ''write'')}
              \<and> m \<noteq> [])"
    if no: "\<not> ok (artifact ?r)"
  proof -
    from run_repomap_cases [of env cfg scope focus out mf mtb sid t] no
    obtain c m s k where r: "?r = failed_run env c m (selected_scope_of env cfg scope)
              (selected_focus_of focus) k t s"
      and cs: "(c, s) \<in> {(''scan_failed'', ''discovery''), (''timeout'', ''discovery''),
                             (''write_failed'', ''write'')}"
      and m: "m \<noteq> []" by blast
    from cs have retry: "c \<in> {''deps_missing'', ''timeout'', ''scan_failed'', ''write_failed''}"
      by auto
    note sh = failed_run_shape [of env c m "selected_scope_of env cfg scope"
        "selected_focus_of focus" k t s]
    from sh retry have e: "error (artifact ?r)
        = Some [(''code'', PyStr c), (''message'', PyStr m),
                (''retryable'', PyBool True), (''failed_stage'', PyStr s)]"
      unfolding r by simp
    from sh have "stats (artifact ?r) = ZERO_STATS" "artifact_ranking (artifact ?r) = []"
      "artifact_text (artifact ?r) = []" unfolding r by simp_all
    with e cs m show ?thesis by blast
  qed
  from failure_artifact_shape [of now code message source_root scope_list focus_list duration
      timeout_ms stage] iff shape
  show ?thesis by blast
qed






section \<open>Concrete runs of the orchestrator\<close>


lemma small_root: "root_is_dir small_repo_env"
  by (simp add: small_repo_env_def)


lemma unwritable_root: "root_is_dir unwritable_env"
  by (simp add: unwritable_env_def small_repo_env_def)

lemma blank_src: "\<not> is_blank ''src''" by code_simp

lemma scope_small: "selected_scope_of small_repo_env None None = [''src'']"
  by (simp add: selected_scope_of_def select_scope_def scope_targets_exist_def blank_src
      small_repo_env_def Let_def)


lemma scope_unwritable: "selected_scope_of unwritable_env None None = [''src'']"
  by (simp add: selected_scope_of_def select_scope_def scope_targets_exist_def blank_src
      unwritable_env_def small_repo_env_def Let_def)

lemma target_small:
  "scope_target small_repo_env ''src'' = TargetDir ''src'' [(''app.py'', FsFile True)]"
  by (simp add: small_repo_env_def)

lemma target_unwritable:
  "scope_target unwritable_env ''src'' = TargetDir ''src'' [(''app.py'', FsFile True)]"
  by (simp add: unwritable_env_def small_repo_env_def)


lemma join_small: "rel_join ''src'' ''app.py'' = ''src/app.py''"
  by code_simp

lemma add_small:
  "add_file DEFAULT_IGNORED_DIRS (''src/app.py'', True) [] = [''src/app.py'']"
  by code_simp

lemma discover_small:
  "discover_files small_repo_env [''src''] [] None 1 = Inr ([''src/app.py''], 3)"
  by (simp add: discover_files_def target_small join_small add_small timed_out_None)

lemma discover_unwritable:
  "discover_files unwritable_env [''src''] [] None 1 = Inr ([''src/app.py''], 3)"
  by (simp add: discover_files_def target_unwritable join_small add_small timed_out_None)


lemma ignored_None: "config_ignored_of None = []"
  by (simp add: config_ignored_of_def)

lemma focus_None: "selected_focus_of None = []"
  by (simp add: selected_focus_of_def)




lemma run_unwritable:
  "run_repomap unwritable_env None None None None None None None None
     = failed_run unwritable_env ''write_failed''
         ''Failed to write repo-map artifact: Is a directory'' [''src''] [] 4 None ''write''"
proof -
  have d: "discover_files unwritable_env (selected_scope_of unwritable_env None None)
      (config_ignored_of None) None 1 = Inr ([''src/app.py''], 3)"
    by (simp only: scope_unwritable ignored_None discover_unwritable)
  have w: "write_failure unwritable_env = Some ''Is a directory''"
    by (simp add: unwritable_env_def)
  from run_repomap_write_fails [OF unwritable_root timed_out_None d w, of None None None None None]
  show ?thesis by (simp add: scope_unwritable focus_None)
qed

lemma run_small_ok:
  "ok (artifact (run_repomap small_repo_env None None None None None None None None))"
proof -
  have d: "discover_files small_repo_env (selected_scope_of small_repo_env None None)
      (config_ignored_of None) None 1 = Inr ([''src/app.py''], 3)"
    by (simp only: scope_small ignored_None discover_small)
  have w: "write_failure small_repo_env = None"
    by (simp add: small_repo_env_def missing_root_env_def)
  from run_repomap_succeeds [OF small_root timed_out_None d w] show ?thesis .
qed

theorem failure_artifacts_are_empty_witness:
  "\<not> ok (artifact (run_repomap unwritable_env None None None None None None None None))
   \<and> stats (artifact (run_repomap unwritable_env None None None None None None None None))
       = ZERO_STATS
   \<and> artifact_ranking
         (artifact (run_repomap unwritable_env None None None None None None None None)) = []
   \<and> artifact_text
         (artifact (run_repomap unwritable_env None None None None None None None None)) = []
   \<and> error (artifact (run_repomap unwritable_env None None None None None None None None))
       = Some [(''code'', PyStr ''write_failed''),
               (''message'', PyStr ''Failed to write repo-map artifact: Is a directory''),
               (''retryable'', PyBool True), (''failed_stage'', PyStr ''write'')]
   \<and> ok (artifact (run_repomap small_repo_env None None None None None None None None))"
proof -
  let ?r = "run_repomap unwritable_env None None None None None None None None"
  have no: "\<not> ok (artifact ?r)"
    by (simp add: run_unwritable failed_run_def failure_artifact_def)
  have e: "error (artifact ?r)
       = Some [(''code'', PyStr ''write_failed''),
               (''message'', PyStr ''Failed to write repo-map artifact: Is a directory''),
               (''retryable'', PyBool True), (''failed_stage'', PyStr ''write'')]"
    by (simp add: run_unwritable failed_run_def failure_artifact_def)
  from failure_artifacts_are_empty
         [where env = unwritable_env and cfg = None and scope = None and focus = None
            and out = None and mf = None and mtb = None and sid = None and t = None]
    no
  have "stats (artifact ?r) = ZERO_STATS \<and> artifact_ranking (artifact ?r) = []
      \<and> artifact_text (artifact ?r) = []" by blast
  with no e run_small_ok show ?thesis by blast
qed



end
